theory Spec2Isabelle
  imports Complex_Main "HOL-Library.Word"
begin

unbundle bit_operations_syntax

section \<open>TMC5072 stepper driver: data model\<close>

text \<open>
  The development embeds \<^verbatim>\<open>tmc5072/stepper_motor_tmc.go\<close>.  Go's fixed-width integers are
  machine words: \<^verbatim>\<open>uint8\<close> is \<open>8 word\<close>, \<^verbatim>\<open>int32\<close> and \<^verbatim>\<open>uint32\<close> are both \<open>32 word\<close>
  (the conversion \<^verbatim>\<open>uint32(x)\<close> of an \<^verbatim>\<open>int32\<close> keeps the bit pattern); an \<^verbatim>\<open>int32\<close> is
  read with \<open>sint\<close>, a \<^verbatim>\<open>uint32\<close> with \<open>uint\<close> or \<open>unat\<close>, and \<open>\<le>\<close> on words is the
  unsigned order that Go uses for \<^verbatim>\<open>uint32\<close>.
\<close>

type_synonym uint8 = "8 word"
type_synonym int32 = "32 word"
type_synonym uint32 = "32 word"

text \<open>
  \<^verbatim>\<open>rampParameters\<close> has eight \<^verbatim>\<open>*uint32\<close> fields; a nil pointer is \<open>None\<close>.  No function of
  the package ever stores through one of these pointers, so a pointer to a value and the
  value itself cannot be told apart and the field is modelled as an optional value.
\<close>

record rampParameters =
  VStart :: "uint32 option"
  VStop :: "uint32 option"
  V1 :: "uint32 option"
  A1 :: "uint32 option"
  D1 :: "uint32 option"
  VMax :: "uint32 option"
  AMax :: "uint32 option"
  DMax :: "uint32 option"

text \<open>
  Errors are values.  \<open>BusError\<close> is whatever the SPI layer reports (identified by a code),
  \<open>ZeroRPMError\<close> is rdk's \<^verbatim>\<open>motor.NewZeroRPMError()\<close>, \<open>RangeError name min max val\<close> is
  \<^verbatim>\<open>errors.Errorf("%s must be between %d and %d, got %d", ...)\<close>, \<open>ErrorMsg\<close> is an
  \<^verbatim>\<open>errors.New\<close> with a fixed text, \<open>Wrapped\<close> is \<^verbatim>\<open>errors.Wrapf\<close> and \<open>MultiError\<close> is what
  \<^verbatim>\<open>multierr.Combine\<close> builds from two or more errors.
\<close>

datatype error =
    BusError nat
  | ZeroRPMError
  | ContextError
  | RangeError string uint32 uint32 uint32
  | ErrorMsg string
  | Wrapped string error
  | MultiError "error list"

record Motor =
  motorName :: string
  csPin :: string
  index :: int
  stepsPerRev :: int
  homeRPM :: real
  maxRPM :: real
  maxAcc :: real
  fClk :: real
  powerPct :: real
  rampParams :: rampParameters

subsection \<open>Register addresses and ramp modes\<close>

definition chopConf :: uint8 where "chopConf = 0x6C"
definition coolConf :: uint8 where "coolConf = 0x6D"
definition drvStatus :: uint8 where "drvStatus = 0x6F"
definition rampMode :: uint8 where "rampMode = 0x20"
definition xActual :: uint8 where "xActual = 0x21"
definition vActual :: uint8 where "vActual = 0x22"
definition vStart :: uint8 where "vStart = 0x23"
definition a1 :: uint8 where "a1 = 0x24"
definition v1 :: uint8 where "v1 = 0x25"
definition aMax :: uint8 where "aMax = 0x26"
definition vMax :: uint8 where "vMax = 0x27"
definition dMax :: uint8 where "dMax = 0x28"
definition d1 :: uint8 where "d1 = 0x2A"
definition vStop :: uint8 where "vStop = 0x2B"
definition xTarget :: uint8 where "xTarget = 0x2D"
definition iHoldIRun :: uint8 where "iHoldIRun = 0x30"
definition vCoolThres :: uint8 where "vCoolThres = 0x31"
definition swMode :: uint8 where "swMode = 0x34"
definition rampStat :: uint8 where "rampStat = 0x35"

definition modePosition :: int32 where "modePosition = 0"
definition modeVelPos :: int32 where "modeVelPos = 1"
definition modeVelNeg :: int32 where "modeVelNeg = 2"
definition modeHold :: int32 where "modeHold = 3"

section \<open>Ramp parameter model\<close>

subsection \<open>validate\<close>

text \<open>
  The closure \<^verbatim>\<open>checkRange\<close> of \<^verbatim>\<open>validate\<close>: a nil field passes, a present one must lie in
  \<open>[min, max]\<close> (unsigned comparison).
\<close>

definition checkRange :: "string \<Rightarrow> uint32 option \<Rightarrow> uint32 \<Rightarrow> uint32 \<Rightarrow> error option" where
  "checkRange name val mn mx =
     (case val of
        None \<Rightarrow> None
      | Some v \<Rightarrow> if v > mx \<or> v < mn then Some (RangeError name mn mx v) else None)"

text \<open>
  \<^verbatim>\<open>validate\<close> on a \<^verbatim>\<open>*rampParameters\<close> receiver (\<open>None\<close> is the nil receiver).  The bounds
  are the source's \<^verbatim>\<open>uint32(math.Pow(2, k)) - 1\<close> and \<^verbatim>\<open>uint32(math.Pow(2, 23)) - 512\<close>; the
  checks run in the source's order and the first failure is returned.
\<close>

definition validate :: "rampParameters option \<Rightarrow> error option" where
  "validate rp =
     (case rp of
        None \<Rightarrow> None
      | Some p \<Rightarrow>
     (case checkRange ''v_start'' (VStart p) 0 (2 ^ 18 - 1) of Some err \<Rightarrow> Some err | None \<Rightarrow>
     (case checkRange ''v_stop'' (VStop p) 1 (2 ^ 18 - 1) of Some err \<Rightarrow> Some err | None \<Rightarrow>
     (case checkRange ''v1'' (V1 p) 0 (2 ^ 20 - 1) of Some err \<Rightarrow> Some err | None \<Rightarrow>
     (case checkRange ''a1'' (A1 p) 0 (2 ^ 16 - 1) of Some err \<Rightarrow> Some err | None \<Rightarrow>
     (case checkRange ''d1'' (D1 p) 1 (2 ^ 16 - 1) of Some err \<Rightarrow> Some err | None \<Rightarrow>
     (case checkRange ''v_max'' (VMax p) 0 (2 ^ 23 - 512) of Some err \<Rightarrow> Some err | None \<Rightarrow>
     (case checkRange ''a_max'' (AMax p) 0 (2 ^ 16 - 1) of Some err \<Rightarrow> Some err | None \<Rightarrow>
     (case checkRange ''d_max'' (DMax p) 0 (2 ^ 16 - 1) of Some err \<Rightarrow> Some err | None \<Rightarrow>
      None)))))))))"

text \<open>
  The bounds as the claim about \<^verbatim>\<open>validate\<close> words them: one row per field with its name,
  its inclusive minimum (1 for \<open>v_stop\<close> and \<open>d1\<close>, 0 for the other six) and its inclusive
  maximum, in the order in which the fields are checked.
\<close>

definition ramp_bounds :: "(string \<times> (rampParameters \<Rightarrow> uint32 option) \<times> uint32 \<times> uint32) list" where
  "ramp_bounds =
     [(''v_start'', VStart, 0, 262143),
      (''v_stop'', VStop, 1, 262143),
      (''v1'', V1, 0, 1048575),
      (''a1'', A1, 0, 65535),
      (''d1'', D1, 1, 65535),
      (''v_max'', VMax, 0, 8388096),
      (''a_max'', AMax, 0, 65535),
      (''d_max'', DMax, 0, 65535)]"

text \<open>A row of the table is violated when its field is present and outside the row's range.\<close>

definition violates :: "rampParameters \<Rightarrow> string \<times> (rampParameters \<Rightarrow> uint32 option) \<times> uint32 \<times> uint32 \<Rightarrow> bool" where
  "violates p row =
     (case row of (name, field, lo, hi) \<Rightarrow>
        (case field p of None \<Rightarrow> False | Some v \<Rightarrow> v < lo \<or> hi < v))"

text \<open>The error a violated row stands for.\<close>

definition range_error :: "rampParameters \<Rightarrow> string \<times> (rampParameters \<Rightarrow> uint32 option) \<times> uint32 \<times> uint32 \<Rightarrow> error" where
  "range_error p row =
     (case row of (name, field, lo, hi) \<Rightarrow> RangeError name lo hi (the (field p)))"

subsection \<open>mergeRampParameters\<close>

text \<open>
  The function works on three local variables: its two by-value parameters \<^verbatim>\<open>base\<close> and
  \<^verbatim>\<open>override\<close> and the local \<^verbatim>\<open>result\<close>.  The body is modelled statement by statement on this
  frame, so that "the function assigns to \<^verbatim>\<open>result\<close> only" is a statement about the model.
\<close>

record merge_frame =
  base :: rampParameters
  override :: rampParameters
  result :: rampParameters

definition emptyRampParameters :: rampParameters where
  "emptyRampParameters =
     \<lparr>VStart = None, VStop = None, V1 = None, A1 = None, D1 = None,
      VMax = None, AMax = None, DMax = None\<rparr>"

text \<open>
  One statement \<^verbatim>\<open>if override.X != nil { result.X = override.X }\<close>, for the field \<open>X\<close>
  given by its selector and its update function.
\<close>

definition assign_if_set ::
  "(rampParameters \<Rightarrow> uint32 option) \<Rightarrow>
   ((uint32 option \<Rightarrow> uint32 option) \<Rightarrow> rampParameters \<Rightarrow> rampParameters) \<Rightarrow>
   merge_frame \<Rightarrow> merge_frame" where
  "assign_if_set field field_update f =
     (if field (override f) \<noteq> None
      then f\<lparr>result := field_update (\<lambda>_. field (override f)) (result f)\<rparr>
      else f)"

definition mergeRampParameters_body :: "merge_frame \<Rightarrow> merge_frame" where
  "mergeRampParameters_body f0 =
     (let f1 = f0\<lparr>result := base f0\<rparr>;
          f2 = assign_if_set VStart VStart_update f1;
          f3 = assign_if_set VStop VStop_update f2;
          f4 = assign_if_set V1 V1_update f3;
          f5 = assign_if_set A1 A1_update f4;
          f6 = assign_if_set D1 D1_update f5;
          f7 = assign_if_set VMax VMax_update f6;
          f8 = assign_if_set AMax AMax_update f7;
          f9 = assign_if_set DMax DMax_update f8
      in f9)"

text \<open>
  The call: the frame starts with the arguments and a zero-valued \<^verbatim>\<open>result\<close> (which the first
  statement overwrites), and the function returns \<^verbatim>\<open>result\<close>.
\<close>

definition mergeRampParameters :: "rampParameters \<Rightarrow> rampParameters \<Rightarrow> rampParameters" where
  "mergeRampParameters b ov =
     result (mergeRampParameters_body \<lparr>base = b, override = ov, result = emptyRampParameters\<rparr>)"

section \<open>Unit converter\<close>

text \<open>
  Go's \<^verbatim>\<open>float64\<close> values are modelled by the real numbers they denote, and every floating-point
  operation is the exact operation followed by a rounding \<open>rnd\<close> to a representable value.  The
  rounding is a parameter: \<open>rnd = (\<lambda>x. x)\<close> is exact arithmetic, and IEEE-754 round-to-nearest is
  a monotone rounding that fixes 0.  NaN, the infinities and the sign of zero are not modelled,
  so a division by zero (which \<open>/\<close> on \<open>real\<close> maps to 0) has to be excluded by a hypothesis
  wherever it could occur.
\<close>

type_synonym rounding = "real \<Rightarrow> real"

text \<open>\<^verbatim>\<open>float64(n)\<close> of an \<^verbatim>\<open>int\<close>.\<close>

definition float64_of_int :: "rounding \<Rightarrow> int \<Rightarrow> real" where
  "float64_of_int rnd n = rnd (of_int n)"

text \<open>
  The conversion of a \<^verbatim>\<open>float64\<close> to an integer type drops the fraction (truncation toward
  zero).  Go leaves the result open when the truncated value does not fit the target type; the
  model then keeps the low 32 bits, and the theorems that depend on the value assume the fit.
\<close>

definition float_to_int :: "real \<Rightarrow> int" where
  "float_to_int x = (if 0 \<le> x then \<lfloor>x\<rfloor> else \<lceil>x\<rceil>)"

definition int32_of_float :: "real \<Rightarrow> int32" where
  "int32_of_float x = word_of_int (float_to_int x)"

definition uint32_of_float :: "real \<Rightarrow> uint32" where
  "uint32_of_float x = word_of_int (float_to_int x)"

text \<open>
  The locals \<^verbatim>\<open>tConst\<close> and \<^verbatim>\<open>speed\<close> of \<^verbatim>\<open>rpmToV\<close>:
  \<^verbatim>\<open>tConst := fClk / math.Pow(2, 24); speed := rpm / 60 * float64(stepsPerRev) / tConst\<close>
  (\<^verbatim>\<open>math.Pow(2, 24)\<close> is the exact power of two).
\<close>

definition tConst :: "rounding \<Rightarrow> real \<Rightarrow> real" where
  "tConst rnd clk = rnd (clk / 2 ^ 24)"

definition rpmToV_speed :: "rounding \<Rightarrow> real \<Rightarrow> real \<Rightarrow> int \<Rightarrow> real" where
  "rpmToV_speed rnd rpm clk steps =
     rnd (rnd (rnd (rpm / 60) * float64_of_int rnd steps) / tConst rnd clk)"

text \<open>The package-level function \<^verbatim>\<open>rpmToV(rpm, maxRPM, fClk, stepsPerRev)\<close>.\<close>

definition rpmToV :: "rounding \<Rightarrow> real \<Rightarrow> real \<Rightarrow> real \<Rightarrow> int \<Rightarrow> int32" where
  "rpmToV rnd rpm rpm_max clk steps =
     (let rpm' = (if rpm > rpm_max then rpm_max else rpm)
      in int32_of_float (rpmToV_speed rnd rpm' clk steps))"

text \<open>
  The package-level function \<^verbatim>\<open>rpmsToA(acc, fClk, stepsPerRev)\<close>:
  \<^verbatim>\<open>taConst := math.Pow(2, 41) / math.Pow(fClk, 2); rawMaxAcc := acc / 60 * float64(stepsPerRev) * taConst\<close>.
\<close>

definition rpmsToA :: "rounding \<Rightarrow> real \<Rightarrow> real \<Rightarrow> int \<Rightarrow> int32" where
  "rpmsToA rnd acc clk steps =
     (let taConst = rnd (2 ^ 41 / rnd (clk ^ 2));
          rawMaxAcc = rnd (rnd (rnd (acc / 60) * float64_of_int rnd steps) * taConst)
      in int32_of_float rawMaxAcc)"

text \<open>The methods \<^verbatim>\<open>(m *Motor) rpmToV\<close> and \<^verbatim>\<open>(m *Motor) rpmsToA\<close>.\<close>

definition Motor_rpmToV :: "rounding \<Rightarrow> Motor \<Rightarrow> real \<Rightarrow> int32" where
  "Motor_rpmToV rnd m rpm =
     (let rpm' = (if rpm > maxRPM m then maxRPM m else rpm);
          tc = rnd (fClk m / 2 ^ 24);
          speed = rnd (rnd (rnd (rpm' / 60) * float64_of_int rnd (stepsPerRev m)) / tc)
      in int32_of_float speed)"

definition Motor_rpmsToA :: "rounding \<Rightarrow> Motor \<Rightarrow> real \<Rightarrow> int32" where
  "Motor_rpmsToA rnd m acc = rpmsToA rnd acc (fClk m) (stepsPerRev m)"

subsection \<open>initRampParameters\<close>

text \<open>
  The defaults.  The locals are \<^verbatim>\<open>rawMaxAcc\<close>, \<^verbatim>\<open>vStart\<close>, \<^verbatim>\<open>vStop\<close>, \<^verbatim>\<open>v1\<close> and \<^verbatim>\<open>vMax\<close>; the
  source computes \<^verbatim>\<open>vMax := uint32(rpmToV(0, maxRPM, fClk, stepsPerRev))\<close>, and the four
  acceleration fields all point to \<^verbatim>\<open>rawMaxAcc\<close>.
\<close>

definition initRampParameters :: "rounding \<Rightarrow> real \<Rightarrow> real \<Rightarrow> real \<Rightarrow> int \<Rightarrow> rampParameters" where
  "initRampParameters rnd rpm_max acc_max clk steps =
     (let rawMaxAcc = rpmsToA rnd acc_max clk steps;
          vStart_v = 1;
          vStop_v = 10;
          v1_v = rpmToV rnd (rnd (rpm_max / 4)) rpm_max clk steps;
          vMax_v = rpmToV rnd 0 rpm_max clk steps
      in \<lparr>VStart = Some vStart_v,
          VStop = Some vStop_v,
          V1 = Some v1_v,
          A1 = Some rawMaxAcc,
          D1 = Some rawMaxAcc,
          VMax = Some vMax_v,
          AMax = Some rawMaxAcc,
          DMax = Some rawMaxAcc\<rparr>)"

section \<open>Register protocol layer\<close>

subsection \<open>shiftAddr\<close>

definition shiftAddr :: "Motor \<Rightarrow> uint8 \<Rightarrow> uint8" where
  "shiftAddr m addr =
     (if index m = 2 then
        (if addr \<ge> 0x10 \<and> addr \<le> 0x11 then addr + 0x08
         else if addr \<ge> 0x20 \<and> addr \<le> 0x3C then addr + 0x20
         else if addr \<ge> 0x6A \<and> addr \<le> 0x6F then addr + 0x10
         else addr)
      else addr)"

subsection \<open>The bus and the driver's environment\<close>

text \<open>
  A transfer sends the five bytes of a \<^verbatim>\<open>[5]byte\<close> buffer and, SPI being full duplex, receives
  as many bytes back.
\<close>

datatype frame = Frame uint8 uint8 uint8 uint8 uint8

text \<open>
  The state that the driver's calls change.  \<open>sent\<close> holds the buffers handed to
  \<^verbatim>\<open>handle.Xfer\<close>, in order (a transfer is counted whether or not it then fails); \<open>opened\<close> and
  \<open>closed\<close> count \<^verbatim>\<open>OpenHandle\<close> and \<^verbatim>\<open>Close\<close> calls; \<open>waits\<close> counts calls of
  \<^verbatim>\<open>utils.SelectContextOrWait\<close>; \<open>cancels\<close> counts the signals sent to the operation manager
  (\<^verbatim>\<open>CancelRunning\<close> and \<^verbatim>\<open>New\<close>).  \<open>regops\<close> is a history variable that no model function reads:
  it records every call of \<^verbatim>\<open>writeReg\<close> and \<^verbatim>\<open>readReg\<close> with the address and value the caller
  passed, so that "a register write" is defined even when the bus handle cannot be opened.
  The mutex \<^verbatim>\<open>globalMu\<close> and the logger are not modelled: a run of the model is one caller's
  sequence of calls.
\<close>

datatype regop = RegWrite uint8 int32 | RegRead uint8

record st =
  regops :: "regop list"
  sent :: "frame list"
  opened :: nat
  closed :: nat
  waits :: nat
  cancels :: nat

text \<open>
  Everything outside the package is a parameter of the model, collected in one record:
  \<^item> \<open>fround\<close>, the rounding of \<^verbatim>\<open>float64\<close> arithmetic;
  \<^item> \<open>checkSpeed\<close>, rdk's \<^verbatim>\<open>motor.CheckSpeed(rpm, max)\<close>, returning the warning and the error;
  \<^item> \<open>waitForSuccess\<close>, rdk's \<^verbatim>\<open>SingleOperationManager.WaitForSuccess\<close>, given the poll function;
  \<^item> \<open>open_error k\<close>, the error (if any) of the \<open>k\<close>-th \<^verbatim>\<open>OpenHandle\<close> call;
  \<^item> \<open>xfer_reply k\<close>, the error or the received bytes of the \<open>k\<close>-th transfer;
  \<^item> \<open>ctx_alive k\<close>, whether the \<open>k\<close>-th \<^verbatim>\<open>SelectContextOrWait\<close> waits its full time (\<open>True\<close>)
    or finds the context done (\<open>False\<close>).
  Calls are numbered from 0.  Any run of the chip, of the SPI layer and of the callers'
  contexts is some such sequence of answers.
\<close>

record env =
  fround :: rounding
  checkSpeed :: "real \<Rightarrow> real \<Rightarrow> string \<times> error option"
  waitForSuccess :: "(st \<Rightarrow> (bool \<times> error option) \<times> st) \<Rightarrow> st \<Rightarrow> error option \<times> st"
  open_error :: "nat \<Rightarrow> error option"
  xfer_reply :: "nat \<Rightarrow> error + frame"
  ctx_alive :: "nat \<Rightarrow> bool"

definition OpenHandle :: "env \<Rightarrow> st \<Rightarrow> error option \<times> st" where
  "OpenHandle e s = (open_error e (opened s), s\<lparr>opened := opened s + 1\<rparr>)"

definition Xfer :: "env \<Rightarrow> frame \<Rightarrow> st \<Rightarrow> (error + frame) \<times> st" where
  "Xfer e tx s = (xfer_reply e (length (sent s)), s\<lparr>sent := sent s @ [tx]\<rparr>)"

text \<open>The deferred \<^verbatim>\<open>handle.Close()\<close>; its error is only logged.\<close>

definition Close :: "st \<Rightarrow> st" where
  "Close s = s\<lparr>closed := closed s + 1\<rparr>"

definition SelectContextOrWait :: "env \<Rightarrow> st \<Rightarrow> bool \<times> st" where
  "SelectContextOrWait e s = (ctx_alive e (waits s), s\<lparr>waits := waits s + 1\<rparr>)"

text \<open>\<^verbatim>\<open>m.opMgr.CancelRunning(ctx)\<close> and \<^verbatim>\<open>m.opMgr.New(ctx)\<close>: each signals the running operation.\<close>

definition CancelRunning :: "st \<Rightarrow> st" where
  "CancelRunning s = s\<lparr>cancels := cancels s + 1\<rparr>"

definition opMgr_New :: "st \<Rightarrow> st" where
  "opMgr_New s = s\<lparr>cancels := cancels s + 1\<rparr>"

subsection \<open>multierr.Combine and errors.Wrapf\<close>

text \<open>
  \<^verbatim>\<open>multierr.Combine\<close> as its documentation has it: nil errors are dropped and nested
  multi-errors are flattened; no error left is nil, one error is returned as it is, more become
  one multi-error.
\<close>

fun flatten_errors :: "error option list \<Rightarrow> error list" where
  "flatten_errors [] = []"
| "flatten_errors (None # rest) = flatten_errors rest"
| "flatten_errors (Some (MultiError es) # rest) = es @ flatten_errors rest"
| "flatten_errors (Some err # rest) = err # flatten_errors rest"

definition Combine :: "error option list \<Rightarrow> error option" where
  "Combine errs =
     (case flatten_errors errs of
        [] \<Rightarrow> None
      | [err] \<Rightarrow> Some err
      | es \<Rightarrow> Some (MultiError es))"

text \<open>\<^verbatim>\<open>errors.Wrapf(err, msg)\<close> is nil for a nil error.\<close>

definition Wrapf :: "error option \<Rightarrow> string \<Rightarrow> error option" where
  "Wrapf err msg = (case err of None \<Rightarrow> None | Some e' \<Rightarrow> Some (Wrapped msg e'))"

subsection \<open>writeReg and readReg\<close>

text \<open>
  The buffer \<^verbatim>\<open>buf\<close> of \<^verbatim>\<open>writeReg\<close>: the shifted address with the write flag, then the value
  from its high byte to its low byte.  \<^verbatim>\<open>value>>k\<close> on an \<^verbatim>\<open>int32\<close> is the arithmetic shift,
  \<^verbatim>\<open>byte(x)\<close> keeps the low eight bits.
\<close>

definition writeFrame :: "Motor \<Rightarrow> uint8 \<Rightarrow> int32 \<Rightarrow> frame" where
  "writeFrame m addr val =
     Frame (shiftAddr m addr OR 0x80)
       (0xFF AND ucast (signed_drop_bit 24 val))
       (0xFF AND ucast (signed_drop_bit 16 val))
       (0xFF AND ucast (signed_drop_bit 8 val))
       (0xFF AND ucast val)"

definition writeReg :: "env \<Rightarrow> Motor \<Rightarrow> uint8 \<Rightarrow> int32 \<Rightarrow> st \<Rightarrow> error option \<times> st" where
  "writeReg e m addr val s =
     (let s0 = s\<lparr>regops := regops s @ [RegWrite addr val]\<rparr>;
          buf = writeFrame m addr val
      in case OpenHandle e s0 of
           (Some err, s1) \<Rightarrow> (Some err, s1)
         | (None, s1) \<Rightarrow>
             (case Xfer e buf s1 of
                (Inl err, s2) \<Rightarrow> (Some err, Close s2)
              | (Inr rx, s2) \<Rightarrow> (None, Close s2)))"

text \<open>
  The four statements that build \<^verbatim>\<open>value\<close> from \<^verbatim>\<open>rbuf[1]\<close> .. \<^verbatim>\<open>rbuf[4]\<close>; \<^verbatim>\<open>int32(b)\<close> of a
  byte extends it with zeros.
\<close>

definition decodeValue :: "frame \<Rightarrow> int32" where
  "decodeValue rbuf =
     (case rbuf of Frame r0 r1 r2 r3 r4 \<Rightarrow>
        (let v = ucast r1;
             v = push_bit 8 v;
             v = v OR ucast r2;
             v = push_bit 8 v;
             v = v OR ucast r3;
             v = push_bit 8 v;
             v = v OR ucast r4
         in v))"

text \<open>
  The buffer \<^verbatim>\<open>tbuf\<close> of \<^verbatim>\<open>readReg\<close>: the shifted address, then four zero bytes.
  \<^verbatim>\<open>readReg\<close> returns \<^verbatim>\<open>(0, err)\<close> on an error, modelled as \<open>Inl err\<close>.
\<close>

definition readFrame :: "Motor \<Rightarrow> uint8 \<Rightarrow> frame" where
  "readFrame m addr = Frame (shiftAddr m addr) 0 0 0 0"

definition readReg :: "env \<Rightarrow> Motor \<Rightarrow> uint8 \<Rightarrow> st \<Rightarrow> (error + int32) \<times> st" where
  "readReg e m addr s =
     (let s0 = s\<lparr>regops := regops s @ [RegRead addr]\<rparr>;
          tbuf = readFrame m addr
      in case OpenHandle e s0 of
           (Some err, s1) \<Rightarrow> (Inl err, s1)
         | (None, s1) \<Rightarrow>
             (case Xfer e tbuf s1 of
                (Inl err, s2) \<Rightarrow> (Inl err, Close s2)
              | (Inr rx, s2) \<Rightarrow>
                  (case Xfer e tbuf s2 of
                     (Inl err, s3) \<Rightarrow> (Inl err, Close s3)
                   | (Inr rbuf, s3) \<Rightarrow> (Inr (decodeValue rbuf), Close s3))))"

section \<open>Motion controller\<close>

text \<open>
  Logger calls, and the \<^verbatim>\<open>motor.CheckSpeed\<close> calls whose results are only logged (in \<^verbatim>\<open>doJog\<close>,
  \<^verbatim>\<open>GoTo\<close> and \<^verbatim>\<open>SetRPM\<close>), change neither a result nor the bus and are left out.
\<close>

definition motorText :: "string \<Rightarrow> Motor \<Rightarrow> string" where
  "motorText what m = what @ '' from motor ('' @ motorName m @ '')''"

definition Position :: "env \<Rightarrow> Motor \<Rightarrow> st \<Rightarrow> (error + real) \<times> st" where
  "Position e m s =
     (case readReg e m xActual s of
        (Inl err, s1) \<Rightarrow> (Inl (Wrapped (motorText ''error in Position'' m) err), s1)
      | (Inr rawPos, s1) \<Rightarrow>
          (Inr (fround e (float64_of_int (fround e) (sint rawPos)
                          / float64_of_int (fround e) (stepsPerRev m))), s1))"

definition doJog :: "env \<Rightarrow> Motor \<Rightarrow> real \<Rightarrow> st \<Rightarrow> error option \<times> st" where
  "doJog e m rpm s =
     (let mode = (if rpm < 0 then modeVelNeg else modeVelPos);
          speed = Motor_rpmToV (fround e) m \<bar>rpm\<bar>
      in case writeReg e m rampMode mode s of (e1, s1) \<Rightarrow>
        (case writeReg e m vMax speed s1 of (e2, s2) \<Rightarrow>
           (Combine [e1, e2], s2)))"

definition Jog :: "env \<Rightarrow> Motor \<Rightarrow> real \<Rightarrow> st \<Rightarrow> error option \<times> st" where
  "Jog e m rpm s = doJog e m rpm (CancelRunning s)"

definition Stop :: "env \<Rightarrow> Motor \<Rightarrow> st \<Rightarrow> error option \<times> st" where
  "Stop e m s = doJog e m 0 (CancelRunning s)"

definition IsStopped :: "env \<Rightarrow> Motor \<Rightarrow> st \<Rightarrow> (bool \<times> error option) \<times> st" where
  "IsStopped e m s =
     (case readReg e m rampStat s of
        (Inl err, s1) \<Rightarrow> ((False, Some (Wrapped (motorText ''error in IsStopped'' m) err)), s1)
      | (Inr stat, s1) \<Rightarrow> ((stat AND 0x400 = 0x400, None), s1))"

definition AtVelocity :: "env \<Rightarrow> Motor \<Rightarrow> st \<Rightarrow> (bool \<times> error option) \<times> st" where
  "AtVelocity e m s =
     (case readReg e m rampStat s of
        (Inl err, s1) \<Rightarrow> ((False, Some err), s1)
      | (Inr stat, s1) \<Rightarrow> ((stat AND 0x100 = 0x100, None), s1))"

definition IsMoving :: "env \<Rightarrow> Motor \<Rightarrow> st \<Rightarrow> (bool \<times> error option) \<times> st" where
  "IsMoving e m s =
     (case IsStopped e m s of ((stop, err), s1) \<Rightarrow> ((\<not> stop, err), s1))"

definition IsPowered :: "env \<Rightarrow> Motor \<Rightarrow> st \<Rightarrow> (bool \<times> real \<times> error option) \<times> st" where
  "IsPowered e m s =
     (case IsMoving e m s of
        ((on, err), s1) \<Rightarrow>
          (if err \<noteq> None
           then ((on, powerPct m, Wrapf err (motorText ''error in IsPowered'' m)), s1)
           else ((on, powerPct m, err), s1)))"

subsection \<open>applyRampParameters and ResetZeroPosition\<close>

text \<open>
  \<^verbatim>\<open>applyRampParameters\<close> dereferences seven of the pointers; a nil pointer is a run-time panic,
  which ends the call and every caller at that point.  The arguments of \<^verbatim>\<open>multierr.Combine\<close>
  are evaluated from left to right, so the writes before the nil field have happened.
\<close>

datatype 'a outcome = Returns 'a | Panics

definition applyRampParameters :: "env \<Rightarrow> Motor \<Rightarrow> rampParameters \<Rightarrow> st \<Rightarrow> error option outcome \<times> st" where
  "applyRampParameters e m params s =
     (case A1 params of None \<Rightarrow> (Panics, s) | Some x1 \<Rightarrow>
        (case writeReg e m a1 x1 s of (e1, s1) \<Rightarrow>
     (case AMax params of None \<Rightarrow> (Panics, s1) | Some x2 \<Rightarrow>
        (case writeReg e m aMax x2 s1 of (e2, s2) \<Rightarrow>
     (case D1 params of None \<Rightarrow> (Panics, s2) | Some x3 \<Rightarrow>
        (case writeReg e m d1 x3 s2 of (e3, s3) \<Rightarrow>
     (case DMax params of None \<Rightarrow> (Panics, s3) | Some x4 \<Rightarrow>
        (case writeReg e m dMax x4 s3 of (e4, s4) \<Rightarrow>
     (case VStart params of None \<Rightarrow> (Panics, s4) | Some x5 \<Rightarrow>
        (case writeReg e m vStart x5 s4 of (e5, s5) \<Rightarrow>
     (case VStop params of None \<Rightarrow> (Panics, s5) | Some x6 \<Rightarrow>
        (case writeReg e m vStop x6 s5 of (e6, s6) \<Rightarrow>
     (case V1 params of None \<Rightarrow> (Panics, s6) | Some x7 \<Rightarrow>
        (case writeReg e m v1 x7 s6 of (e7, s7) \<Rightarrow>
          (Returns (Combine [e1, e2, e3, e4, e5, e6, e7]), s7)))))))))))))))"

text \<open>The value \<^verbatim>\<open>int32(-1*offset*float64(m.stepsPerRev))\<close> written by \<^verbatim>\<open>ResetZeroPosition\<close>.\<close>

definition zeroOffsetSteps :: "env \<Rightarrow> Motor \<Rightarrow> real \<Rightarrow> int32" where
  "zeroOffsetSteps e m offset =
     int32_of_float (fround e (fround e (- 1 * offset) * float64_of_int (fround e) (stepsPerRev m)))"

definition ResetZeroPosition :: "env \<Rightarrow> Motor \<Rightarrow> real \<Rightarrow> st \<Rightarrow> error option outcome \<times> st" where
  "ResetZeroPosition e m offset s =
     (case IsPowered e m s of
        ((on, pct, err), s0) \<Rightarrow>
          if err \<noteq> None
          then (Returns (Wrapf err (motorText ''error in ResetZeroPosition'' m)), s0)
          else if on
          then (Returns (Some (ErrorMsg (''can't zero motor ('' @ motorName m @ '') while moving''))), s0)
          else
            (case writeReg e m rampMode modeHold s0 of (e1, s1) \<Rightarrow>
            (case applyRampParameters e m (rampParams m) s1 of
               (Panics, s2) \<Rightarrow> (Panics, s2)
             | (Returns e2, s2) \<Rightarrow>
            (case writeReg e m xTarget (zeroOffsetSteps e m offset) s2 of (e3, s3) \<Rightarrow>
            (case writeReg e m xActual (zeroOffsetSteps e m offset) s3 of (e4, s4) \<Rightarrow>
               (Returns (Combine [e1, e2, e3, e4]), s4))))))"

subsection \<open>GoTo and GoFor\<close>

text \<open>
  The \<^verbatim>\<open>extra\<close> argument is a \<^verbatim>\<open>map[string]interface{}\<close> (\<open>None\<close> is the nil map); the dynamic
  values that \<^verbatim>\<open>parseRampParametersFromExtra\<close> tells apart are a nested map, the four numeric
  types \<^verbatim>\<open>uint32\<close>, \<^verbatim>\<open>int\<close>, \<^verbatim>\<open>int64\<close>, \<^verbatim>\<open>float64\<close>, and anything else.
\<close>

datatype dyn =
    DUint32 uint32
  | DInt "64 word"
  | DInt64 "64 word"
  | DFloat64 real
  | DMap "(string \<times> dyn) list"
  | DOther

definition toUint32 :: "dyn option \<Rightarrow> uint32 option" where
  "toUint32 v =
     (case v of
        Some (DUint32 x) \<Rightarrow> Some x
      | Some (DInt x) \<Rightarrow> Some (ucast x)
      | Some (DInt64 x) \<Rightarrow> Some (ucast x)
      | Some (DFloat64 x) \<Rightarrow> Some (uint32_of_float x)
      | _ \<Rightarrow> None)"

definition parseRampParametersFromExtra :: "(string \<times> dyn) list \<Rightarrow> error + rampParameters option" where
  "parseRampParametersFromExtra extra =
     (case map_of extra ''ramp_parameters'' of
        None \<Rightarrow> Inr None
      | Some (DMap rampParamsMap) \<Rightarrow>
          Inr (Some
            \<lparr>VStart = toUint32 (map_of rampParamsMap ''v_start''),
             VStop = toUint32 (map_of rampParamsMap ''v_stop''),
             V1 = toUint32 (map_of rampParamsMap ''v1''),
             A1 = toUint32 (map_of rampParamsMap ''a1''),
             D1 = toUint32 (map_of rampParamsMap ''d1''),
             VMax = toUint32 (map_of rampParamsMap ''v_max''),
             AMax = toUint32 (map_of rampParamsMap ''a_max''),
             DMax = toUint32 (map_of rampParamsMap ''d_max'')\<rparr>)
      | Some other \<Rightarrow> Inl (ErrorMsg ''ramp_parameters must be a map[string]interface{}''))"

text \<open>The ramp parameters a call works with: the configured ones, merged with those of \<^verbatim>\<open>extra\<close>.\<close>

definition effectiveRampParameters :: "Motor \<Rightarrow> (string \<times> dyn) list option \<Rightarrow> error + rampParameters" where
  "effectiveRampParameters m extra =
     (case extra of
        None \<Rightarrow> Inr (rampParams m)
      | Some ex \<Rightarrow>
          (case parseRampParametersFromExtra ex of
             Inl err \<Rightarrow> Inl err
           | Inr None \<Rightarrow> Inr (rampParams m)
           | Inr (Some extraRampParams) \<Rightarrow> Inr (mergeRampParameters (rampParams m) extraRampParams)))"

definition GoTo :: "env \<Rightarrow> Motor \<Rightarrow> real \<Rightarrow> real \<Rightarrow> (string \<times> dyn) list option \<Rightarrow> st \<Rightarrow> error option outcome \<times> st" where
  "GoTo e m rpm positionRevolutions extra s =
     (let s0 = opMgr_New s in
      case effectiveRampParameters m extra of
        Inl err \<Rightarrow>
          (Returns (Some (Wrapped (motorText ''error parsing ramp_parameters in GoTo'' m) err)), s0)
      | Inr params \<Rightarrow>
          (let steps = fround e (positionRevolutions * float64_of_int (fround e) (stepsPerRev m)) in
           case writeReg e m rampMode modePosition s0 of (e1, s1) \<Rightarrow>
           (case applyRampParameters e m params s1 of
              (Panics, s2) \<Rightarrow> (Panics, s2)
            | (Returns e2, s2) \<Rightarrow>
           (case writeReg e m vMax (Motor_rpmToV (fround e) m \<bar>rpm\<bar>) s2 of (e3, s3) \<Rightarrow>
           (case writeReg e m xTarget (int32_of_float steps) s3 of (e4, s4) \<Rightarrow>
              (case Combine [e1, e2, e3, e4] of
                 Some err \<Rightarrow> (Returns (Some (Wrapped (motorText ''error in GoTo'' m) err)), s4)
               | None \<Rightarrow>
                   (case waitForSuccess e (IsStopped e m) s4 of
                      (res, s5) \<Rightarrow> (Returns res, s5))))))))"

text \<open>\<^verbatim>\<open>math.Signbit\<close> on the reals (the model has no negative zero).\<close>

definition Signbit :: "real \<Rightarrow> bool" where
  "Signbit x = (x < 0)"

definition GoFor :: "env \<Rightarrow> Motor \<Rightarrow> real \<Rightarrow> real \<Rightarrow> (string \<times> dyn) list option \<Rightarrow> st \<Rightarrow> error option outcome \<times> st" where
  "GoFor e m rpm rotations extra s =
     (case checkSpeed e rpm (maxRPM m) of
        (warning, Some err) \<Rightarrow> (Returns (Some err), s)
      | (warning, None) \<Rightarrow>
          (case Position e m s of
             (Inl err, s1) \<Rightarrow> (Returns (Some (Wrapped (motorText ''error in GoFor'' m) err)), s1)
           | (Inr curPos, s1) \<Rightarrow>
               (let d = (if Signbit rotations \<noteq> Signbit rpm then - 1 else 1);
                    rotations' = fround e (\<bar>rotations\<bar> * float64_of_int (fround e) d);
                    rpm' = \<bar>rpm\<bar>;
                    target = fround e (curPos + rotations')
                in GoTo e m rpm' target extra s1)))"

subsection \<open>goTillStop\<close>

text \<open>
  The two polling loops.  A loop either leaves the function (\<open>Return\<close> with the function's
  result) or ends with \<^verbatim>\<open>break\<close>.  \<^verbatim>\<open>stopFunc\<close> is a predicate on what it can observe, or nil.
  The counter \<^verbatim>\<open>fails\<close> starts at 0 and only grows, so it is a natural number.
\<close>

datatype loop_exit = Return "error option" | Break

definition stopRequested :: "(st \<Rightarrow> bool) option \<Rightarrow> st \<Rightarrow> bool" where
  "stopRequested stopFunc s = (case stopFunc of None \<Rightarrow> False | Some f \<Rightarrow> f s)"

function upToSpeed :: "env \<Rightarrow> Motor \<Rightarrow> (st \<Rightarrow> bool) option \<Rightarrow> nat \<Rightarrow> st \<Rightarrow> loop_exit \<times> st" where
  "upToSpeed e m stopFunc fails s =
     (case SelectContextOrWait e s of
        (False, s1) \<Rightarrow>
          (Return (Some (ErrorMsg
             ''context cancelled: duration timeout trying to get up to speed while homing'')), s1)
      | (True, s1) \<Rightarrow>
          if stopRequested stopFunc s1 then (Return None, s1)
          else
            (case AtVelocity e m s1 of
               ((ready, Some err), s2) \<Rightarrow> (Return (Some err), s2)
             | ((ready, None), s2) \<Rightarrow>
                 if ready then (Break, s2)
                 else if fails \<ge> 500
                 then (Return (Some (ErrorMsg
                        ''over 500 failures trying to get up to speed while homing'')), s2)
                 else upToSpeed e m stopFunc (fails + 1) s2))"
  by pat_completeness auto
termination
  by (relation "measure (\<lambda>(e, m, stopFunc, fails, s). 500 - fails)") auto

function atEndstop :: "env \<Rightarrow> Motor \<Rightarrow> (st \<Rightarrow> bool) option \<Rightarrow> nat \<Rightarrow> st \<Rightarrow> loop_exit \<times> st" where
  "atEndstop e m stopFunc fails s =
     (case SelectContextOrWait e s of
        (False, s1) \<Rightarrow>
          (Return (Some (ErrorMsg
             ''context cancelled: duration timeout trying to stop at the endstop while homing'')), s1)
      | (True, s1) \<Rightarrow>
          if stopRequested stopFunc s1 then (Return None, s1)
          else
            (case IsStopped e m s1 of
               ((stopped, Some err), s2) \<Rightarrow> (Return (Some err), s2)
             | ((stopped, None), s2) \<Rightarrow>
                 if stopped then (Break, s2)
                 else if fails \<ge> 10000
                 then (Return (Some (ErrorMsg
                        ''over 1000 failures trying to stop at endstop while homing'')), s2)
                 else atEndstop e m stopFunc (fails + 1) s2))"
  by pat_completeness auto
termination
  by (relation "measure (\<lambda>(e, m, stopFunc, fails, s). 10000 - fails)") auto

text \<open>
  The statements of \<^verbatim>\<open>goTillStop\<close> after its two \<^verbatim>\<open>defer\<close>s, up to the \<^verbatim>\<open>return\<close> that ends it.
\<close>

definition goTillStop_body :: "env \<Rightarrow> Motor \<Rightarrow> (st \<Rightarrow> bool) option \<Rightarrow> st \<Rightarrow> error option \<times> st" where
  "goTillStop_body e m stopFunc s =
     (case upToSpeed e m stopFunc 0 s of
        (Return r, s1) \<Rightarrow> (r, s1)
      | (Break, s1) \<Rightarrow>
          (case writeReg e m swMode 0x400 s1 of
             (Some err, s2) \<Rightarrow> (Some err, s2)
           | (None, s2) \<Rightarrow>
               (case atEndstop e m stopFunc 0 s2 of
                  (Return r, s3) \<Rightarrow> (r, s3)
                | (Break, s3) \<Rightarrow> (None, s3))))"

text \<open>
  The deferred function: \<^verbatim>\<open>multierr.Combine(m.writeReg(ctx, swMode, 0x000), m.doJog(ctx, 0))\<close>;
  its error is logged and not returned.
\<close>

definition goTillStop_cleanup :: "env \<Rightarrow> Motor \<Rightarrow> st \<Rightarrow> error option \<times> st" where
  "goTillStop_cleanup e m s =
     (case writeReg e m swMode 0x000 s of (e1, s1) \<Rightarrow>
     (case doJog e m 0 s1 of (e2, s2) \<Rightarrow>
        (Combine [e1, e2], s2)))"

text \<open>
  \<^verbatim>\<open>goTillStop\<close>: the initial \<^verbatim>\<open>Jog\<close> returns before any \<^verbatim>\<open>defer\<close> is registered; afterwards
  the body runs, and the deferred cleanup runs on every way out of the body.
\<close>

definition goTillStop :: "env \<Rightarrow> Motor \<Rightarrow> real \<Rightarrow> (st \<Rightarrow> bool) option \<Rightarrow> st \<Rightarrow> error option \<times> st" where
  "goTillStop e m rpm stopFunc s =
     (case Jog e m rpm s of
        (Some err, s1) \<Rightarrow> (Some err, s1)
      | (None, s1) \<Rightarrow>
          (case goTillStop_body e m stopFunc (opMgr_New s1) of
             (r, s3) \<Rightarrow>
               (case goTillStop_cleanup e m s3 of
                  (cleanupErr, s4) \<Rightarrow> (r, s4))))"

section \<open>Vocabulary of the properties\<close>

text \<open>
  The status bits of a reply to a read of \<^verbatim>\<open>rampStat\<close>, as \<^verbatim>\<open>AtVelocity\<close> and \<^verbatim>\<open>IsStopped\<close> test
  them on the decoded value: bit 8 is "target velocity reached", bit 10 is "motion stopped".
\<close>

definition velocityReached :: "frame \<Rightarrow> bool" where
  "velocityReached rbuf = (decodeValue rbuf AND 0x100 = 0x100)"

definition motionStopped :: "frame \<Rightarrow> bool" where
  "motionStopped rbuf = (decodeValue rbuf AND 0x400 = 0x400)"

text \<open>
  The state after \<open>n\<close> more polls of \<^verbatim>\<open>rampStat\<close> that each waited, opened a handle and made both
  transfers.
\<close>

definition polled :: "Motor \<Rightarrow> nat \<Rightarrow> st \<Rightarrow> st" where
  "polled m n s =
     s\<lparr>regops := regops s @ replicate n (RegRead rampStat),
       sent := sent s @ replicate (2 * n) (readFrame m rampStat),
       opened := opened s + n,
       closed := closed s + n,
       waits := waits s + n\<rparr>"

text \<open>
  The state in which poll number \<open>k\<close> (from 0) of a loop that starts in \<open>s\<close> consults
  \<^verbatim>\<open>stopFunc\<close>: \<open>k\<close> polls are complete and the wait of this one is over.
\<close>

definition pollPoint :: "Motor \<Rightarrow> nat \<Rightarrow> st \<Rightarrow> st" where
  "pollPoint m k s = (polled m k s)\<lparr>waits := waits s + k + 1\<rparr>"

text \<open>The register operations of the deferred cleanup of \<^verbatim>\<open>goTillStop\<close>.\<close>

definition cleanupOps :: "env \<Rightarrow> Motor \<Rightarrow> regop list" where
  "cleanupOps e m =
     [RegWrite swMode 0, RegWrite rampMode modeVelPos, RegWrite vMax (Motor_rpmToV (fround e) m 0)]"

text \<open>The register operations of a jog at \<open>rpm\<close>.\<close>

definition jogOps :: "env \<Rightarrow> Motor \<Rightarrow> real \<Rightarrow> regop list" where
  "jogOps e m rpm =
     [RegWrite rampMode (if rpm < 0 then modeVelNeg else modeVelPos),
      RegWrite vMax (Motor_rpmToV (fround e) m \<bar>rpm\<bar>)]"

text \<open>All seven pointers that \<^verbatim>\<open>applyRampParameters\<close> dereferences are set.\<close>

definition rampComplete :: "rampParameters \<Rightarrow> bool" where
  "rampComplete p =
     (A1 p \<noteq> None \<and> AMax p \<noteq> None \<and> D1 p \<noteq> None \<and> DMax p \<noteq> None
      \<and> VStart p \<noteq> None \<and> VStop p \<noteq> None \<and> V1 p \<noteq> None)"

text \<open>
  The register operations of \<^verbatim>\<open>applyRampParameters\<close> when all seven pointers are set, in the
  order of the source.
\<close>

definition rampOps :: "rampParameters \<Rightarrow> regop list" where
  "rampOps p =
     [RegWrite a1 (the (A1 p)), RegWrite aMax (the (AMax p)), RegWrite d1 (the (D1 p)),
      RegWrite dMax (the (DMax p)), RegWrite vStart (the (VStart p)),
      RegWrite vStop (the (VStop p)), RegWrite v1 (the (V1 p))]"

text \<open>A register operation that writes one of the given registers.\<close>

definition writesTo :: "uint8 set \<Rightarrow> regop \<Rightarrow> bool" where
  "writesTo regs op = (case op of RegWrite addr val \<Rightarrow> addr \<in> regs | RegRead addr \<Rightarrow> False)"

section \<open>Example drivers\<close>

text \<open>
  The configuration of the package's tests (\<^verbatim>\<open>max_rpm = 500\<close>, \<^verbatim>\<open>max_acceleration = 500\<close>,
  200 ticks per rotation with 256 microsteps, calibration factor 1 on the 13.2 MHz clock), with
  exact arithmetic, for channel 1 and for channel 2.
\<close>

definition exact :: rounding where
  "exact = (\<lambda>x. x)"

definition testMotor :: Motor where
  "testMotor =
     \<lparr>motorName = ''motor1'', csPin = ''40'', index = 1, stepsPerRev = 51200,
      homeRPM = - 125, maxRPM = 500, maxAcc = 500, fClk = 13200000, powerPct = 0,
      rampParams = initRampParameters exact 500 500 13200000 51200\<rparr>"

definition testMotor2 :: Motor where
  "testMotor2 = testMotor\<lparr>motorName := ''motor2'', index := 2\<rparr>"

text \<open>
  An environment for examples: exact arithmetic; a speed check that agrees with the package's
  tests (speeds under 0.1 rpm are refused with the zero-rpm error, speeds within 0.1 rpm of the
  maximum only warn); a wait that polls once; a bus on which every handle opens and every
  transfer answers with the given frame; contexts that are never cancelled.
\<close>

definition testCheckSpeed :: "real \<Rightarrow> real \<Rightarrow> string \<times> error option" where
  "testCheckSpeed rpm rpm_max =
     (if \<bar>rpm\<bar> < 0.1 then (''motor speed is nearly 0 rev_per_min'', Some ZeroRPMError)
      else if rpm_max > 0 \<and> \<bar>rpm\<bar> > rpm_max - 0.1
      then (''motor speed is nearly the max rev_per_min'', None)
      else ([], None))"

definition pollOnce :: "(st \<Rightarrow> (bool \<times> error option) \<times> st) \<Rightarrow> st \<Rightarrow> error option \<times> st" where
  "pollOnce poll s = (case poll s of ((res, err), s1) \<Rightarrow> (err, s1))"

definition testEnv :: "(nat \<Rightarrow> error + frame) \<Rightarrow> env" where
  "testEnv replies =
     \<lparr>fround = exact, checkSpeed = testCheckSpeed, waitForSuccess = pollOnce,
      open_error = (\<lambda>k. None), xfer_reply = replies, ctx_alive = (\<lambda>k. True)\<rparr>"

definition idle :: st where
  "idle = \<lparr>regops = [], sent = [], opened = 0, closed = 0, waits = 0, cancels = 0\<rparr>"

text \<open>
  Buses for the examples: one whose every reply is all zeros (no status bit set), one whose
  every reply has the "motion stopped" bit, one whose every transfer fails, and one whose
  replies are all zeros up to transfer 1002 and carry both status bits from transfer 1003 on.
\<close>

definition quietBus :: "nat \<Rightarrow> error + frame" where
  "quietBus k = Inr (Frame 0 0 0 0 0)"

definition stoppedBus :: "nat \<Rightarrow> error + frame" where
  "stoppedBus k = Inr (Frame 0 0 0 4 0)"

definition failingBus :: "nat \<Rightarrow> error + frame" where
  "failingBus k = Inl (BusError 1)"

definition lateBus :: "nat \<Rightarrow> error + frame" where
  "lateBus k = (if k < 1003 then Inr (Frame 0 0 0 0 0) else Inr (Frame 0 0 0 5 0))"

text \<open>
  A bus whose replies carry the "target velocity reached" bit at every even transfer and no
  status bit at every odd one: after the two transfers of a jog, each read of \<^verbatim>\<open>rampStat\<close>
  receives the bit in the reply it discards and not in the reply it decodes.
\<close>

definition staleBus :: "nat \<Rightarrow> error + frame" where
  "staleBus k = (if even k then Inr (Frame 0 0 0 1 0) else Inr (Frame 0 0 0 0 0))"

text \<open>
  Two more drivers: one configured with a negative \<^verbatim>\<open>max_rpm\<close> (which \<^verbatim>\<open>Validate\<close> and
  \<^verbatim>\<open>makeMotor\<close> accept), and one with a single tick per rotation (256 steps per revolution).
\<close>

definition negativeMaxMotor :: Motor where
  "negativeMaxMotor = testMotor\<lparr>maxRPM := - 60\<rparr>"

definition coarseMotor :: Motor where
  "coarseMotor = testMotor\<lparr>stepsPerRev := 256\<rparr>"

section \<open>Properties\<close>

subsection \<open>mergeRampParameters\<close>

lemma assign_if_set_frame [simp]:
  "base (assign_if_set field field_update f) = base f"
  "override (assign_if_set field field_update f) = override f"
  by (simp_all add: assign_if_set_def)

lemma assign_if_set_result:
  "result (assign_if_set field field_update f) =
     (case field (override f) of
        None \<Rightarrow> result f
      | Some v \<Rightarrow> field_update (\<lambda>_. Some v) (result f))"
  by (simp add: assign_if_set_def split: option.splits)

lemma mergeRampParameters_body_frame:
  "base (mergeRampParameters_body f) = base f \<and> override (mergeRampParameters_body f) = override f"
  by (simp add: mergeRampParameters_body_def Let_def)

lemma mergeRampParameters_VStart:
  "VStart (mergeRampParameters b ov) = (case VStart ov of None \<Rightarrow> VStart b | Some v \<Rightarrow> Some v)"
  by (simp add: mergeRampParameters_def mergeRampParameters_body_def Let_def
      assign_if_set_result split: option.splits)

lemma mergeRampParameters_VStop:
  "VStop (mergeRampParameters b ov) = (case VStop ov of None \<Rightarrow> VStop b | Some v \<Rightarrow> Some v)"
  by (simp add: mergeRampParameters_def mergeRampParameters_body_def Let_def
      assign_if_set_result split: option.splits)

lemma mergeRampParameters_V1:
  "V1 (mergeRampParameters b ov) = (case V1 ov of None \<Rightarrow> V1 b | Some v \<Rightarrow> Some v)"
  by (simp add: mergeRampParameters_def mergeRampParameters_body_def Let_def
      assign_if_set_result split: option.splits)

lemma mergeRampParameters_A1:
  "A1 (mergeRampParameters b ov) = (case A1 ov of None \<Rightarrow> A1 b | Some v \<Rightarrow> Some v)"
  by (simp add: mergeRampParameters_def mergeRampParameters_body_def Let_def
      assign_if_set_result split: option.splits)

lemma mergeRampParameters_D1:
  "D1 (mergeRampParameters b ov) = (case D1 ov of None \<Rightarrow> D1 b | Some v \<Rightarrow> Some v)"
  by (simp add: mergeRampParameters_def mergeRampParameters_body_def Let_def
      assign_if_set_result split: option.splits)

lemma mergeRampParameters_VMax:
  "VMax (mergeRampParameters b ov) = (case VMax ov of None \<Rightarrow> VMax b | Some v \<Rightarrow> Some v)"
  by (simp add: mergeRampParameters_def mergeRampParameters_body_def Let_def
      assign_if_set_result split: option.splits)

lemma mergeRampParameters_AMax:
  "AMax (mergeRampParameters b ov) = (case AMax ov of None \<Rightarrow> AMax b | Some v \<Rightarrow> Some v)"
  by (simp add: mergeRampParameters_def mergeRampParameters_body_def Let_def
      assign_if_set_result split: option.splits)

lemma mergeRampParameters_DMax:
  "DMax (mergeRampParameters b ov) = (case DMax ov of None \<Rightarrow> DMax b | Some v \<Rightarrow> Some v)"
  by (simp add: mergeRampParameters_def mergeRampParameters_body_def Let_def
      assign_if_set_result split: option.splits)

lemmas mergeRampParameters_fields =
  mergeRampParameters_VStart mergeRampParameters_VStop mergeRampParameters_V1
  mergeRampParameters_A1 mergeRampParameters_D1 mergeRampParameters_VMax
  mergeRampParameters_AMax mergeRampParameters_DMax

lemma rampParameters_eqI:
  fixes p q :: rampParameters
  assumes "VStart p = VStart q" "VStop p = VStop q" "V1 p = V1 q" "A1 p = A1 q"
    and "D1 p = D1 q" "VMax p = VMax q" "AMax p = AMax q" "DMax p = DMax q"
  shows "p = q"
  using assms by (cases p, cases q) simp

text \<open>
  C7.  \<^verbatim>\<open>mergeRampParameters\<close> is idempotent in its override, the empty override (all fields
  nil) is a right identity, and the function never changes its \<^verbatim>\<open>base\<close> argument: after the
  body has run on any frame, the variable \<^verbatim>\<open>base\<close> (hence each of its eight fields) and the
  variable \<^verbatim>\<open>override\<close> hold what they held before.
\<close>

theorem mergeRampParameters_idempotent_identity_pure:
  "mergeRampParameters (mergeRampParameters b ov) ov = mergeRampParameters b ov
   \<and> mergeRampParameters b emptyRampParameters = b
   \<and> base (mergeRampParameters_body f) = base f
   \<and> override (mergeRampParameters_body f) = override f"
proof -
  have idem: "mergeRampParameters (mergeRampParameters b ov) ov = mergeRampParameters b ov"
    by (rule rampParameters_eqI) (simp_all add: mergeRampParameters_fields split: option.splits)
  have ident: "mergeRampParameters b emptyRampParameters = b"
    by (rule rampParameters_eqI) (simp_all add: mergeRampParameters_fields emptyRampParameters_def)
  show ?thesis
    using idem ident mergeRampParameters_body_frame by simp
qed

subsection \<open>validate\<close>

lemma checkRange_violates:
  "checkRange name (field p) lo hi =
     (if violates p (name, field, lo, hi) then Some (range_error p (name, field, lo, hi)) else None)"
  by (simp add: checkRange_def violates_def range_error_def split: option.splits)

lemma validate_find:
  "validate (Some p) = map_option (range_error p) (find (violates p) ramp_bounds)"
  by (simp add: validate_def ramp_bounds_def checkRange_violates)

lemma validate_zero_rejected:
  "validate (Some (p\<lparr>VStop := Some 0\<rparr>)) \<noteq> None" "validate (Some (p\<lparr>D1 := Some 0\<rparr>)) \<noteq> None"
  by (simp_all add: validate_find ramp_bounds_def violates_def)

lemma validate_zero_accepted:
  "(validate (Some (p\<lparr>VStart := Some 0\<rparr>)) = None) = (validate (Some (p\<lparr>VStart := None\<rparr>)) = None)"
  "(validate (Some (p\<lparr>V1 := Some 0\<rparr>)) = None) = (validate (Some (p\<lparr>V1 := None\<rparr>)) = None)"
  "(validate (Some (p\<lparr>VMax := Some 0\<rparr>)) = None) = (validate (Some (p\<lparr>VMax := None\<rparr>)) = None)"
  "(validate (Some (p\<lparr>A1 := Some 0\<rparr>)) = None) = (validate (Some (p\<lparr>A1 := None\<rparr>)) = None)"
  "(validate (Some (p\<lparr>AMax := Some 0\<rparr>)) = None) = (validate (Some (p\<lparr>AMax := None\<rparr>)) = None)"
  "(validate (Some (p\<lparr>DMax := Some 0\<rparr>)) = None) = (validate (Some (p\<lparr>DMax := None\<rparr>)) = None)"
  by (simp_all add: validate_find ramp_bounds_def violates_def)

text \<open>
  C9.  \<^verbatim>\<open>validate\<close> returns exactly the range error of the first row of the bounds table that
  the parameters violate (and nil when no row is violated, or on a nil receiver): the error
  names that field, with minimum 1 for \<open>v_stop\<close> and \<open>d1\<close> and minimum 0 for the other six.  A
  present \<open>v_stop\<close> or \<open>d1\<close> of 0 is always rejected; for \<open>v_start\<close>, \<open>v1\<close>, \<open>v_max\<close>, \<open>a1\<close>,
  \<open>a_max\<close> and \<open>d_max\<close> a present 0 is accepted wherever an absent field is; the single-field
  parameters with \<open>v_stop = 0\<close> and with \<open>d1 = 0\<close> yield the errors naming those fields.
\<close>

theorem validate_range_errors:
  "validate None = None
   \<and> validate (Some p) = map_option (range_error p) (find (violates p) ramp_bounds)
   \<and> validate (Some (p\<lparr>VStop := Some 0\<rparr>)) \<noteq> None
   \<and> validate (Some (p\<lparr>D1 := Some 0\<rparr>)) \<noteq> None
   \<and> (validate (Some (p\<lparr>VStart := Some 0\<rparr>)) = None) = (validate (Some (p\<lparr>VStart := None\<rparr>)) = None)
   \<and> (validate (Some (p\<lparr>V1 := Some 0\<rparr>)) = None) = (validate (Some (p\<lparr>V1 := None\<rparr>)) = None)
   \<and> (validate (Some (p\<lparr>VMax := Some 0\<rparr>)) = None) = (validate (Some (p\<lparr>VMax := None\<rparr>)) = None)
   \<and> (validate (Some (p\<lparr>A1 := Some 0\<rparr>)) = None) = (validate (Some (p\<lparr>A1 := None\<rparr>)) = None)
   \<and> (validate (Some (p\<lparr>AMax := Some 0\<rparr>)) = None) = (validate (Some (p\<lparr>AMax := None\<rparr>)) = None)
   \<and> (validate (Some (p\<lparr>DMax := Some 0\<rparr>)) = None) = (validate (Some (p\<lparr>DMax := None\<rparr>)) = None)
   \<and> validate (Some (emptyRampParameters\<lparr>VStop := Some 0\<rparr>)) = Some (RangeError ''v_stop'' 1 262143 0)
   \<and> validate (Some (emptyRampParameters\<lparr>D1 := Some 0\<rparr>)) = Some (RangeError ''d1'' 1 65535 0)
   \<and> validate (Some (emptyRampParameters\<lparr>VStart := Some 0, V1 := Some 0, A1 := Some 0,
         VMax := Some 0, AMax := Some 0, DMax := Some 0\<rparr>)) = None"
proof -
  have nil: "validate None = None"
    by (simp add: validate_def)
  have single:
    "validate (Some (emptyRampParameters\<lparr>VStop := Some 0\<rparr>)) = Some (RangeError ''v_stop'' 1 262143 0)"
    "validate (Some (emptyRampParameters\<lparr>D1 := Some 0\<rparr>)) = Some (RangeError ''d1'' 1 65535 0)"
    "validate (Some (emptyRampParameters\<lparr>VStart := Some 0, V1 := Some 0, A1 := Some 0,
         VMax := Some 0, AMax := Some 0, DMax := Some 0\<rparr>)) = None"
    by (simp_all add: validate_find ramp_bounds_def violates_def range_error_def
        emptyRampParameters_def)
  show ?thesis
    using nil validate_find[of p] validate_zero_rejected[of p] validate_zero_accepted[of p] single
    by blast
qed

subsection \<open>shiftAddr\<close>

lemma shiftAddr_unat:
  "shiftAddr m addr =
     (if index m = 2 then
        (if 0x10 \<le> unat addr \<and> unat addr \<le> 0x11 then addr + 0x08
         else if 0x20 \<le> unat addr \<and> unat addr \<le> 0x3C then addr + 0x20
         else if 0x6A \<le> unat addr \<and> unat addr \<le> 0x6F then addr + 0x10
         else addr)
      else addr)"
  by (simp add: shiftAddr_def word_le_nat_alt)

lemma unat_add_small:
  fixes addr :: "8 word"
  assumes "unat addr + k < 256"
  shows "unat (addr + of_nat k) = unat addr + k"
  using assms by (simp add: unat_word_ariths unat_of_nat)

lemma shiftAddr_low:
  "index m = 2 \<Longrightarrow> 0x10 \<le> unat addr \<Longrightarrow> unat addr \<le> 0x11 \<Longrightarrow>
   unat (shiftAddr m addr) = unat addr + 0x08"
  using unat_add_small[of addr 8] by (simp add: shiftAddr_unat)

lemma shiftAddr_ramp:
  "index m = 2 \<Longrightarrow> 0x20 \<le> unat addr \<Longrightarrow> unat addr \<le> 0x3C \<Longrightarrow>
   unat (shiftAddr m addr) = unat addr + 0x20"
  using unat_add_small[of addr 32] by (simp add: shiftAddr_unat)

lemma shiftAddr_driver:
  "index m = 2 \<Longrightarrow> 0x6A \<le> unat addr \<Longrightarrow> unat addr \<le> 0x6F \<Longrightarrow>
   unat (shiftAddr m addr) = unat addr + 0x10"
  using unat_add_small[of addr 16] by (simp add: shiftAddr_unat)

lemma shiftAddr_other:
  "index m = 2 \<Longrightarrow> \<not> (0x10 \<le> unat addr \<and> unat addr \<le> 0x11) \<Longrightarrow>
   \<not> (0x20 \<le> unat addr \<and> unat addr \<le> 0x3C) \<Longrightarrow>
   \<not> (0x6A \<le> unat addr \<and> unat addr \<le> 0x6F) \<Longrightarrow> shiftAddr m addr = addr"
  by (simp add: shiftAddr_unat)

lemma shiftAddr_not_channel2: "index m \<noteq> 2 \<Longrightarrow> shiftAddr m addr = addr"
  by (simp add: shiftAddr_unat)

text \<open>
  C6.  For a driver with channel index 2 the shifted address is, as a number and without
  wrap-around of the byte, \<open>addr + 0x08\<close> for \<open>addr\<close> in \<open>[0x10, 0x11]\<close>, \<open>addr + 0x20\<close> for
  \<open>addr\<close> in \<open>[0x20, 0x3C]\<close> and \<open>addr + 0x10\<close> for \<open>addr\<close> in \<open>[0x6A, 0x6F]\<close>, and every other
  address is unchanged; for channel index 1 every address is unchanged.
\<close>

theorem shiftAddr_offsets:
  "(index m = 2 \<and> 0x10 \<le> unat addr \<and> unat addr \<le> 0x11 \<longrightarrow>
      unat (shiftAddr m addr) = unat addr + 0x08)
   \<and> (index m = 2 \<and> 0x20 \<le> unat addr \<and> unat addr \<le> 0x3C \<longrightarrow>
      unat (shiftAddr m addr) = unat addr + 0x20)
   \<and> (index m = 2 \<and> 0x6A \<le> unat addr \<and> unat addr \<le> 0x6F \<longrightarrow>
      unat (shiftAddr m addr) = unat addr + 0x10)
   \<and> (index m = 2 \<and> \<not> (0x10 \<le> unat addr \<and> unat addr \<le> 0x11)
        \<and> \<not> (0x20 \<le> unat addr \<and> unat addr \<le> 0x3C)
        \<and> \<not> (0x6A \<le> unat addr \<and> unat addr \<le> 0x6F) \<longrightarrow>
      shiftAddr m addr = addr)
   \<and> (index m = 1 \<longrightarrow> shiftAddr m addr = addr)"
  using shiftAddr_low[of m addr] shiftAddr_ramp[of m addr] shiftAddr_driver[of m addr]
    shiftAddr_other[of m addr] shiftAddr_not_channel2[of m addr]
  by (intro conjI impI) simp_all

theorem shiftAddr_offsets_witness:
  "index testMotor2 = 2 \<and> index testMotor = 1
   \<and> unat (shiftAddr testMotor2 0x10) = 0x18
   \<and> unat (shiftAddr testMotor2 0x27) = 0x47
   \<and> unat (shiftAddr testMotor2 0x6C) = 0x7C
   \<and> shiftAddr testMotor2 0x04 = 0x04
   \<and> shiftAddr testMotor 0x27 = 0x27"
  using shiftAddr_offsets[of testMotor2 "0x10"] shiftAddr_offsets[of testMotor2 "0x27"]
    shiftAddr_offsets[of testMotor2 "0x6C"] shiftAddr_offsets[of testMotor2 "0x04"]
    shiftAddr_offsets[of testMotor "0x27"]
  by (simp add: testMotor2_def testMotor_def)

subsection \<open>Unit converter\<close>

lemma sint_word_of_int_32:
  assumes "- (2 ^ 31) \<le> k" "k < 2 ^ 31"
  shows "sint (word_of_int k :: 32 word) = k"
  using assms by (simp add: sint_sbintrunc' signed_take_bit_int_eq_self)

lemma float_to_int_mono: "x \<le> y \<Longrightarrow> float_to_int x \<le> float_to_int y"
proof -
  assume xy: "x \<le> y"
  have "\<lceil>x\<rceil> \<le> \<lfloor>y\<rfloor>" if "x < 0" "0 \<le> y"
  proof -
    have "\<lceil>x\<rceil> \<le> 0" using that by (simp add: ceiling_le_zero)
    moreover have "0 \<le> \<lfloor>y\<rfloor>" using that by simp
    ultimately show ?thesis by linarith
  qed
  then show ?thesis
    using xy by (auto simp: float_to_int_def floor_mono ceiling_mono)
qed

lemma float_to_int_nonneg: "0 \<le> x \<Longrightarrow> 0 \<le> float_to_int x"
  by (simp add: float_to_int_def)

lemma float_to_int_less: "0 \<le> x \<Longrightarrow> x < of_int k \<Longrightarrow> float_to_int x < k"
  by (simp add: float_to_int_def floor_less_iff)

lemma rpmToV_speed_mono:
  assumes "mono rnd" "rnd 0 = 0" "0 < tConst rnd clk" "0 \<le> steps" "r \<le> r'"
  shows "rpmToV_speed rnd r clk steps \<le> rpmToV_speed rnd r' clk steps"
proof -
  have F: "0 \<le> float64_of_int rnd steps"
  proof -
    have "rnd 0 \<le> rnd (of_int steps)"
      using assms(1,4) by (simp add: monoD)
    then show ?thesis by (simp add: float64_of_int_def assms(2))
  qed
  have "rnd (r / 60) \<le> rnd (r' / 60)"
    using assms(1,5) by (simp add: monoD divide_right_mono)
  then have "rnd (r / 60) * float64_of_int rnd steps \<le> rnd (r' / 60) * float64_of_int rnd steps"
    using F by (rule mult_right_mono)
  then have "rnd (rnd (r / 60) * float64_of_int rnd steps)
             \<le> rnd (rnd (r' / 60) * float64_of_int rnd steps)"
    using assms(1) by (rule monoD[rotated])
  then have "rnd (rnd (r / 60) * float64_of_int rnd steps) / tConst rnd clk
             \<le> rnd (rnd (r' / 60) * float64_of_int rnd steps) / tConst rnd clk"
    using assms(3) by (simp add: divide_right_mono)
  then show ?thesis
    unfolding rpmToV_speed_def using assms(1) by (rule monoD[rotated])
qed

lemma rpmToV_speed_zero:
  assumes "rnd 0 = 0"
  shows "rpmToV_speed rnd 0 clk steps = 0"
  by (simp add: rpmToV_speed_def assms)

lemma rpmToV_zero:
  assumes "rnd 0 = 0" "0 \<le> rpm_max"
  shows "rpmToV rnd 0 rpm_max clk steps = 0"
  using assms by (simp add: rpmToV_def rpmToV_speed_zero int32_of_float_def float_to_int_def)

lemma Motor_rpmToV_eq:
  "Motor_rpmToV rnd m rpm = rpmToV rnd rpm (maxRPM m) (fClk m) (stepsPerRev m)"
  by (simp add: Motor_rpmToV_def rpmToV_def rpmToV_speed_def tConst_def Let_def)

lemmas converter_defs =
  rpmToV_def rpmsToA_def rpmToV_speed_def tConst_def float64_of_int_def int32_of_float_def
  float_to_int_def exact_def Let_def

text \<open>
  C8.  \<^verbatim>\<open>rpmToV\<close> is monotonically non-decreasing in \<open>rpm\<close> on \<open>0 \<le> rpm \<le> maxRPM\<close>, read
  as signed 32-bit values.  The inputs are valid when the clock's time constant is positive,
  the step count is not negative and the speed of \<open>maxRPM\<close> fits an \<^verbatim>\<open>int32\<close>; the arithmetic
  may round after every operation with any monotone rounding that fixes 0.
\<close>

theorem rpmToV_monotone:
  assumes "mono rnd" and "rnd 0 = 0" and "0 < tConst rnd clk" and "0 \<le> steps"
    and "0 \<le> rpm1" and "rpm1 \<le> rpm2" and "rpm2 \<le> rpm_max"
    and "rpmToV_speed rnd rpm_max clk steps < 2 ^ 31"
  shows "sint (rpmToV rnd rpm1 rpm_max clk steps) \<le> sint (rpmToV rnd rpm2 rpm_max clk steps)"
proof -
  let ?S = "\<lambda>r. rpmToV_speed rnd r clk steps"
  have m: "\<And>r r'. r \<le> r' \<Longrightarrow> ?S r \<le> ?S r'"
    using assms(1-4) by (rule rpmToV_speed_mono)
  have z: "?S 0 = 0" using assms(2) by (rule rpmToV_speed_zero)
  have s1: "0 \<le> ?S rpm1" using m[OF assms(5)] z by simp
  have s12: "?S rpm1 \<le> ?S rpm2" using m[OF assms(6)] .
  have s2: "?S rpm2 < 2 ^ 31" using m[OF assms(7)] assms(8) by simp
  have i1: "0 \<le> float_to_int (?S rpm1)" using s1 by (rule float_to_int_nonneg)
  have i12: "float_to_int (?S rpm1) \<le> float_to_int (?S rpm2)"
    using s12 by (rule float_to_int_mono)
  have i2: "float_to_int (?S rpm2) < 2 ^ 31"
    using float_to_int_less[of "?S rpm2" "2 ^ 31"] s1 s12 s2 by simp
  have v1: "sint (rpmToV rnd rpm1 rpm_max clk steps) = float_to_int (?S rpm1)"
    using assms(6,7) i1 i12 i2 by (simp add: rpmToV_def int32_of_float_def sint_word_of_int_32)
  have v2: "sint (rpmToV rnd rpm2 rpm_max clk steps) = float_to_int (?S rpm2)"
    using assms(7) i1 i12 i2 by (simp add: rpmToV_def int32_of_float_def sint_word_of_int_32)
  show ?thesis using v1 v2 i12 by simp
qed

theorem rpmToV_monotone_witness:
  "mono exact \<and> exact 0 = 0 \<and> 0 < tConst exact 13200000 \<and> (0::int) \<le> 51200
   \<and> (0::real) \<le> 50 \<and> (50::real) \<le> 250 \<and> (250::real) \<le> 500
   \<and> rpmToV_speed exact 500 13200000 51200 < 2 ^ 31
   \<and> sint (rpmToV exact 50 500 13200000 51200) \<le> sint (rpmToV exact 250 500 13200000 51200)"
proof -
  have h: "mono exact" "exact 0 = 0" "0 < tConst exact 13200000"
    "rpmToV_speed exact 500 13200000 51200 < 2 ^ 31"
    by (simp_all add: exact_def mono_def tConst_def rpmToV_speed_def float64_of_int_def)
  show ?thesis
    using h rpmToV_monotone[of exact 13200000 51200 50 250 500] by simp
qed

subsection \<open>initRampParameters\<close>

text \<open>
  C1 (as the code has it).  For every \<open>(maxRPM, maxAccel, clockHz, stepsPerRev)\<close> the derived
  base parameters have start velocity 1, stop velocity 10, phase-1 velocity the
  velocity-register conversion of \<open>maxRPM / 4\<close>, the two accelerations and the two decelerations
  all equal to the acceleration-register conversion of \<open>maxAccel\<close>, and max velocity the
  velocity-register conversion of rpm 0 (not of \<open>maxRPM\<close>), which is 0 whenever \<open>maxRPM\<close> is not
  negative.
\<close>

theorem initRampParameters_defaults:
  "initRampParameters rnd rpm_max acc_max clk steps =
     \<lparr>VStart = Some 1,
      VStop = Some 10,
      V1 = Some (rpmToV rnd (rnd (rpm_max / 4)) rpm_max clk steps),
      A1 = Some (rpmsToA rnd acc_max clk steps),
      D1 = Some (rpmsToA rnd acc_max clk steps),
      VMax = Some (rpmToV rnd 0 rpm_max clk steps),
      AMax = Some (rpmsToA rnd acc_max clk steps),
      DMax = Some (rpmsToA rnd acc_max clk steps)\<rparr>
   \<and> (rnd 0 = 0 \<and> 0 \<le> rpm_max \<longrightarrow>
        VMax (initRampParameters rnd rpm_max acc_max clk steps) = Some 0)"
  by (simp add: initRampParameters_def Let_def rpmToV_zero)

theorem initRampParameters_defaults_witness:
  "exact 0 = 0 \<and> (0::real) \<le> 500
   \<and> initRampParameters exact 500 500 13200000 51200 =
       \<lparr>VStart = Some 1, VStop = Some 10, V1 = Some 135573, A1 = Some 5384, D1 = Some 5384,
        VMax = Some 0, AMax = Some 5384, DMax = Some 5384\<rparr>"
proof -
  have v: "rpmToV exact (exact (500 / 4)) 500 13200000 51200 = 135573"
    "rpmsToA exact 500 13200000 51200 = 5384" "exact 0 = 0"
    "rpmToV exact 0 500 13200000 51200 = 0"
    by (simp_all add: converter_defs)
  show ?thesis
    using v initRampParameters_defaults[of exact 500 500 13200000 51200] by simp
qed

text \<open>
  The claim as stated fails on the test configuration: the default max velocity is 0, while the
  velocity-register conversion of \<open>maxRPM = 500\<close> is 542293.
\<close>

theorem initRampParameters_vmax_counterexample:
  "VMax (initRampParameters exact 500 500 13200000 51200) = Some 0
   \<and> rpmToV exact 500 500 13200000 51200 = 542293
   \<and> VMax (initRampParameters exact 500 500 13200000 51200)
       \<noteq> Some (rpmToV exact 500 500 13200000 51200)"
  by (simp add: initRampParameters_def converter_defs)

subsection \<open>writeReg and readReg\<close>

lemma writeReg_open_fails:
  "open_error e (opened s) = Some err \<Longrightarrow>
   writeReg e m addr val s =
     (Some err, s\<lparr>regops := regops s @ [RegWrite addr val], opened := opened s + 1\<rparr>)"
  by (simp add: writeReg_def OpenHandle_def Let_def)

lemma writeReg_opened:
  "open_error e (opened s) = None \<Longrightarrow>
   writeReg e m addr val s =
     ((case xfer_reply e (length (sent s)) of Inl err \<Rightarrow> Some err | Inr rx \<Rightarrow> None),
      s\<lparr>regops := regops s @ [RegWrite addr val],
        sent := sent s @ [writeFrame m addr val],
        opened := opened s + 1, closed := closed s + 1\<rparr>)"
  by (simp add: writeReg_def OpenHandle_def Xfer_def Close_def Let_def split: sum.splits)

lemma writeReg_regops [simp]:
  "regops (snd (writeReg e m addr val s)) = regops s @ [RegWrite addr val]"
  by (cases "open_error e (opened s)") (simp_all add: writeReg_open_fails writeReg_opened)

lemma writeReg_waits [simp]: "waits (snd (writeReg e m addr val s)) = waits s"
  by (cases "open_error e (opened s)") (simp_all add: writeReg_open_fails writeReg_opened)

lemma writeReg_cancels [simp]: "cancels (snd (writeReg e m addr val s)) = cancels s"
  by (cases "open_error e (opened s)") (simp_all add: writeReg_open_fails writeReg_opened)

lemma writeReg_opened_count [simp]: "opened (snd (writeReg e m addr val s)) = opened s + 1"
  by (cases "open_error e (opened s)") (simp_all add: writeReg_open_fails writeReg_opened)

lemma writeReg_succeeds:
  assumes "fst (writeReg e m addr val s) = None"
  shows "open_error e (opened s) = None"
    and "\<exists>rx. xfer_reply e (length (sent s)) = Inr rx"
    and "snd (writeReg e m addr val s) =
           s\<lparr>regops := regops s @ [RegWrite addr val],
             sent := sent s @ [writeFrame m addr val],
             opened := opened s + 1, closed := closed s + 1\<rparr>"
proof -
  show o: "open_error e (opened s) = None"
    using assms by (cases "open_error e (opened s)") (simp_all add: writeReg_open_fails)
  show "\<exists>rx. xfer_reply e (length (sent s)) = Inr rx"
    using assms o by (cases "xfer_reply e (length (sent s))") (simp_all add: writeReg_opened)
  show "snd (writeReg e m addr val s) =
           s\<lparr>regops := regops s @ [RegWrite addr val],
             sent := sent s @ [writeFrame m addr val],
             opened := opened s + 1, closed := closed s + 1\<rparr>"
    using o by (simp add: writeReg_opened)
qed

lemma decodeValue_unfold:
  "decodeValue (Frame r0 r1 r2 r3 r4) =
     push_bit 8 (push_bit 8 (push_bit 8 (ucast r1) OR ucast r2) OR ucast r3) OR ucast r4"
  by (simp only: decodeValue_def Let_def frame.case)

lemma push_or_byte:
  fixes x :: "32 word" and b :: "8 word"
  shows "push_bit 8 x OR ucast b = x * 2 ^ 8 + ucast b"
proof -
  have "push_bit 8 x + ucast b = push_bit 8 x OR ucast b"
  proof (rule disjunctive_add)
    fix n
    show "\<not> bit (push_bit 8 x) n \<or> \<not> bit (ucast b :: 32 word) n"
      by (cases "n < 8") (auto simp: bit_push_bit_iff bit_ucast_iff dest: bit_imp_le_length)
  qed
  then show ?thesis by (simp add: push_bit_eq_mult)
qed

lemma decodeValue_arith:
  "decodeValue (Frame r0 r1 r2 r3 r4) =
     word_of_int (uint r1 * 2 ^ 24 + uint r2 * 2 ^ 16 + uint r3 * 2 ^ 8 + uint r4)"
proof -
  have "decodeValue (Frame r0 r1 r2 r3 r4) =
          ((ucast r1 * 2 ^ 8 + ucast r2) * 2 ^ 8 + ucast r3) * 2 ^ 8 + ucast r4"
    unfolding decodeValue_unfold push_or_byte by (simp add: push_bit_eq_mult)
  also have "\<dots> = ucast r1 * 2 ^ 24 + ucast r2 * 2 ^ 16 + ucast r3 * 2 ^ 8 + ucast r4"
    by (simp add: algebra_simps)
  also have "\<dots> = word_of_int (uint r1 * 2 ^ 24 + uint r2 * 2 ^ 16 + uint r3 * 2 ^ 8 + uint r4)"
    by simp
  finally show ?thesis .
qed

lemma decodeValue_uint:
  "uint (decodeValue (Frame r0 r1 r2 r3 r4)) =
     uint r1 * 2 ^ 24 + uint r2 * 2 ^ 16 + uint r3 * 2 ^ 8 + uint r4"
proof -
  let ?n = "uint r1 * 2 ^ 24 + uint r2 * 2 ^ 16 + uint r3 * 2 ^ 8 + uint r4"
  have b: "0 \<le> uint x" "uint x < 256" for x :: "8 word"
    using uint_lt2p[of x] by simp_all
  have hi: "?n < 2 ^ 32"
    using b[of r1] b[of r2] b[of r3] b[of r4] by simp
  have lo: "0 \<le> ?n"
    using b[of r1] b[of r2] b[of r3] b[of r4] by simp
  have "uint (word_of_int ?n :: 32 word) = take_bit 32 ?n"
    unfolding uint_word_of_int_eq by simp
  also have "\<dots> = ?n"
    using lo hi by (simp only: take_bit_int_eq_self)
  finally show ?thesis
    by (simp only: decodeValue_arith)
qed

lemma sint_word_of_int_signed:
  "sint (word_of_int n :: 32 word) = signed_take_bit 31 n"
  using sint_sbintrunc'[where 'a = 32, of n] by simp

lemma decodeValue_sint:
  "sint (decodeValue (Frame r0 r1 r2 r3 r4)) =
     signed_take_bit 31 (uint r1 * 2 ^ 24 + uint r2 * 2 ^ 16 + uint r3 * 2 ^ 8 + uint r4)"
  by (simp only: decodeValue_arith sint_word_of_int_signed)

lemma readReg_open_fails:
  "open_error e (opened s) = Some err \<Longrightarrow>
   readReg e m addr s = (Inl err, s\<lparr>regops := regops s @ [RegRead addr], opened := opened s + 1\<rparr>)"
  by (simp add: readReg_def OpenHandle_def Let_def)

lemma readReg_first_fails:
  "open_error e (opened s) = None \<Longrightarrow> xfer_reply e (length (sent s)) = Inl err \<Longrightarrow>
   readReg e m addr s =
     (Inl err, s\<lparr>regops := regops s @ [RegRead addr],
                 sent := sent s @ [readFrame m addr],
                 opened := opened s + 1, closed := closed s + 1\<rparr>)"
  by (simp add: readReg_def OpenHandle_def Xfer_def Close_def Let_def)

lemma readReg_second_fails:
  "open_error e (opened s) = None \<Longrightarrow> xfer_reply e (length (sent s)) = Inr rx \<Longrightarrow>
   xfer_reply e (Suc (length (sent s))) = Inl err \<Longrightarrow>
   readReg e m addr s =
     (Inl err, s\<lparr>regops := regops s @ [RegRead addr],
                 sent := sent s @ [readFrame m addr, readFrame m addr],
                 opened := opened s + 1, closed := closed s + 1\<rparr>)"
  by (simp add: readReg_def OpenHandle_def Xfer_def Close_def Let_def)

lemma readReg_ok:
  "open_error e (opened s) = None \<Longrightarrow> xfer_reply e (length (sent s)) = Inr rx \<Longrightarrow>
   xfer_reply e (Suc (length (sent s))) = Inr rbuf \<Longrightarrow>
   readReg e m addr s =
     (Inr (decodeValue rbuf),
      s\<lparr>regops := regops s @ [RegRead addr],
        sent := sent s @ [readFrame m addr, readFrame m addr],
        opened := opened s + 1, closed := closed s + 1\<rparr>)"
  by (simp add: readReg_def OpenHandle_def Xfer_def Close_def Let_def)

lemma readReg_regops [simp]:
  "regops (snd (readReg e m addr s)) = regops s @ [RegRead addr]"
  by (simp add: readReg_def OpenHandle_def Xfer_def Close_def Let_def
      split: option.splits sum.splits)

lemma readReg_waits [simp]: "waits (snd (readReg e m addr s)) = waits s"
  by (simp add: readReg_def OpenHandle_def Xfer_def Close_def Let_def
      split: option.splits sum.splits)

lemma readReg_at_most_two:
  "\<exists>k\<le>2. sent (snd (readReg e m addr s)) = sent s @ replicate k (readFrame m addr)"
proof (cases "open_error e (opened s)")
  case (Some err)
  then show ?thesis by (intro exI[of _ 0]) (simp add: readReg_open_fails)
next
  case None
  show ?thesis
  proof (cases "xfer_reply e (length (sent s))")
    case (Inl err)
    with None show ?thesis by (intro exI[of _ 1]) (simp add: readReg_first_fails)
  next
    case first: (Inr rx)
    show ?thesis
    proof (cases "xfer_reply e (Suc (length (sent s)))")
      case (Inl err)
      with None first show ?thesis
        by (intro exI[of _ 2]) (simp add: readReg_second_fails numeral_2_eq_2)
    next
      case (Inr rbuf)
      with None first show ?thesis
        by (intro exI[of _ 2]) (simp add: readReg_ok numeral_2_eq_2)
    qed
  qed
qed

lemma readReg_two_when_first_ok:
  assumes "open_error e (opened s) = None" "xfer_reply e (length (sent s)) = Inr rx"
  shows "sent (snd (readReg e m addr s)) = sent s @ [readFrame m addr, readFrame m addr]"
  using assms
  by (cases "xfer_reply e (Suc (length (sent s)))") (simp_all add: readReg_second_fails readReg_ok)

text \<open>
  C2 (as the code has it).  For every register address \<^verbatim>\<open>readReg\<close> issues at most two bus
  transfers, each with the same request payload (the shifted address byte followed by four zero
  bytes).  It issues exactly two whenever the handle opens and the first transfer succeeds; the
  first reply is then discarded and, when the second transfer succeeds too, the result is the
  second reply's four payload bytes as a big-endian 32-bit integer, read as a signed
  (two's complement) number.  When the handle does not
  open no transfer is made, when the first transfer fails it is the only one, and in each
  failing case the error is returned.
\<close>

theorem readReg_two_transfers:
  "(\<exists>k\<le>2. sent (snd (readReg e m addr s)) = sent s @ replicate k (readFrame m addr))
   \<and> readFrame m addr = Frame (shiftAddr m addr) 0 0 0 0
   \<and> (open_error e (opened s) = None \<and> xfer_reply e (length (sent s)) = Inr rx \<longrightarrow>
        sent (snd (readReg e m addr s)) = sent s @ [readFrame m addr, readFrame m addr])
   \<and> (open_error e (opened s) = None \<and> xfer_reply e (length (sent s)) = Inr rx
        \<and> xfer_reply e (Suc (length (sent s))) = Inr (Frame r0 r1 r2 r3 r4) \<longrightarrow>
        fst (readReg e m addr s) =
          Inr (word_of_int (uint r1 * 2 ^ 24 + uint r2 * 2 ^ 16 + uint r3 * 2 ^ 8 + uint r4))
        \<and> (\<forall>v. fst (readReg e m addr s) = Inr v \<longrightarrow>
             uint v = uint r1 * 2 ^ 24 + uint r2 * 2 ^ 16 + uint r3 * 2 ^ 8 + uint r4
             \<and> sint v =
                 signed_take_bit 31 (uint r1 * 2 ^ 24 + uint r2 * 2 ^ 16 + uint r3 * 2 ^ 8 + uint r4)))
   \<and> (open_error e (opened s) = Some err \<longrightarrow>
        fst (readReg e m addr s) = Inl err \<and> sent (snd (readReg e m addr s)) = sent s)
   \<and> (open_error e (opened s) = None \<and> xfer_reply e (length (sent s)) = Inl err \<longrightarrow>
        fst (readReg e m addr s) = Inl err
        \<and> sent (snd (readReg e m addr s)) = sent s @ [readFrame m addr])
   \<and> (open_error e (opened s) = None \<and> xfer_reply e (length (sent s)) = Inr rx
        \<and> xfer_reply e (Suc (length (sent s))) = Inl err \<longrightarrow>
        fst (readReg e m addr s) = Inl err)"
proof -
  let ?n = "uint r1 * 2 ^ 24 + uint r2 * 2 ^ 16 + uint r3 * 2 ^ 8 + uint r4"
  have c1: "\<exists>k\<le>2. sent (snd (readReg e m addr s)) = sent s @ replicate k (readFrame m addr)"
    by (rule readReg_at_most_two)
  have c2: "readFrame m addr = Frame (shiftAddr m addr) 0 0 0 0"
    by (simp add: readFrame_def)
  have c3: "open_error e (opened s) = None \<and> xfer_reply e (length (sent s)) = Inr rx \<longrightarrow>
        sent (snd (readReg e m addr s)) = sent s @ [readFrame m addr, readFrame m addr]"
    using readReg_two_when_first_ok[of e s rx m addr] by blast
  have c4: "open_error e (opened s) = None \<and> xfer_reply e (length (sent s)) = Inr rx
        \<and> xfer_reply e (Suc (length (sent s))) = Inr (Frame r0 r1 r2 r3 r4) \<longrightarrow>
        fst (readReg e m addr s) = Inr (word_of_int ?n)
        \<and> (\<forall>v. fst (readReg e m addr s) = Inr v \<longrightarrow>
             uint v = ?n \<and> sint v = signed_take_bit 31 ?n)"
  proof (intro impI, elim conjE)
    assume h: "open_error e (opened s) = None" "xfer_reply e (length (sent s)) = Inr rx"
      "xfer_reply e (Suc (length (sent s))) = Inr (Frame r0 r1 r2 r3 r4)"
    have r: "fst (readReg e m addr s) = Inr (decodeValue (Frame r0 r1 r2 r3 r4))"
      using h by (simp add: readReg_ok)
    have a: "fst (readReg e m addr s) = Inr (word_of_int ?n)"
      using r by (simp only: decodeValue_arith)
    have b: "uint v = ?n \<and> sint v = signed_take_bit 31 ?n"
      if "fst (readReg e m addr s) = Inr v" for v
    proof -
      from that r have "v = decodeValue (Frame r0 r1 r2 r3 r4)" by simp
      then show ?thesis by (simp only: decodeValue_uint decodeValue_sint)
    qed
    show "fst (readReg e m addr s) = Inr (word_of_int ?n)
        \<and> (\<forall>v. fst (readReg e m addr s) = Inr v \<longrightarrow>
             uint v = ?n \<and> sint v = signed_take_bit 31 ?n)"
      using a b by blast
  qed
  have c5: "open_error e (opened s) = Some err \<longrightarrow>
        fst (readReg e m addr s) = Inl err \<and> sent (snd (readReg e m addr s)) = sent s"
    by (simp add: readReg_open_fails)
  have c6: "open_error e (opened s) = None \<and> xfer_reply e (length (sent s)) = Inl err \<longrightarrow>
        fst (readReg e m addr s) = Inl err
        \<and> sent (snd (readReg e m addr s)) = sent s @ [readFrame m addr]"
    by (simp add: readReg_first_fails)
  have c7: "open_error e (opened s) = None \<and> xfer_reply e (length (sent s)) = Inr rx
        \<and> xfer_reply e (Suc (length (sent s))) = Inl err \<longrightarrow>
        fst (readReg e m addr s) = Inl err"
    by (simp add: readReg_second_fails)
  show ?thesis
    using c1 c2 c3 c4 c5 c6 c7 by (intro conjI)
qed

theorem readReg_two_transfers_witness:
  "open_error (testEnv (\<lambda>k. Inr (Frame 0 0 3 32 0))) (opened idle) = None
   \<and> xfer_reply (testEnv (\<lambda>k. Inr (Frame 0 0 3 32 0))) (length (sent idle)) = Inr (Frame 0 0 3 32 0)
   \<and> xfer_reply (testEnv (\<lambda>k. Inr (Frame 0 0 3 32 0))) (Suc (length (sent idle))) = Inr (Frame 0 0 3 32 0)
   \<and> sent (snd (readReg (testEnv (\<lambda>k. Inr (Frame 0 0 3 32 0))) testMotor xActual idle)) =
       [Frame 0x21 0 0 0 0, Frame 0x21 0 0 0 0]
   \<and> fst (readReg (testEnv (\<lambda>k. Inr (Frame 0 0 3 32 0))) testMotor xActual idle) = Inr 204800
   \<and> fst (readReg (testEnv (\<lambda>k. Inr (Frame 0 255 255 255 254))) testMotor xActual idle) = Inr (- 2)"
  using readReg_two_transfers[of "testEnv (\<lambda>k. Inr (Frame 0 0 3 32 0))" testMotor xActual idle
      "Frame 0 0 3 32 0" 0 0 3 32 0]
    readReg_two_transfers[of "testEnv (\<lambda>k. Inr (Frame 0 255 255 255 254))" testMotor xActual idle
      "Frame 0 255 255 255 254" 0 255 255 255 254]
  by (simp add: testEnv_def idle_def shiftAddr_def testMotor_def xActual_def readFrame_def)

text \<open>
  The claim as stated fails when the first transfer fails: \<^verbatim>\<open>readReg\<close> then returns the error
  after one transfer.
\<close>

theorem readReg_one_transfer_counterexample:
  "sent (snd (readReg (testEnv (\<lambda>k. Inl (BusError 1))) testMotor rampStat idle)) = [Frame 0x35 0 0 0 0]
   \<and> length (sent (snd (readReg (testEnv (\<lambda>k. Inl (BusError 1))) testMotor rampStat idle))) = 1
   \<and> fst (readReg (testEnv (\<lambda>k. Inl (BusError 1))) testMotor rampStat idle) = Inl (BusError 1)"
  by (simp add: readReg_first_fails testEnv_def idle_def shiftAddr_def testMotor_def rampStat_def
      readFrame_def)

subsection \<open>doJog, Jog and Stop\<close>

lemma doJog_unfold:
  "doJog e m rpm s =
     (Combine [fst (writeReg e m rampMode (if rpm < 0 then modeVelNeg else modeVelPos) s),
               fst (writeReg e m vMax (Motor_rpmToV (fround e) m \<bar>rpm\<bar>)
                      (snd (writeReg e m rampMode (if rpm < 0 then modeVelNeg else modeVelPos) s)))],
      snd (writeReg e m vMax (Motor_rpmToV (fround e) m \<bar>rpm\<bar>)
             (snd (writeReg e m rampMode (if rpm < 0 then modeVelNeg else modeVelPos) s))))"
  by (simp add: doJog_def Let_def split: prod.splits)

lemma doJog_regops [simp]:
  "regops (snd (doJog e m rpm s)) = regops s @ jogOps e m rpm"
  by (simp add: doJog_unfold jogOps_def)

lemma doJog_waits [simp]: "waits (snd (doJog e m rpm s)) = waits s"
  by (simp add: doJog_unfold)

lemma doJog_cancels [simp]: "cancels (snd (doJog e m rpm s)) = cancels s"
  by (simp add: doJog_unfold)

lemma doJog_opened [simp]: "opened (snd (doJog e m rpm s)) = opened s + 2"
  by (simp add: doJog_unfold)

lemma doJog_sent:
  assumes "open_error e (opened s) = None" "open_error e (Suc (opened s)) = None"
  shows "sent (snd (doJog e m rpm s)) =
           sent s @ [writeFrame m rampMode (if rpm < 0 then modeVelNeg else modeVelPos),
                     writeFrame m vMax (Motor_rpmToV (fround e) m \<bar>rpm\<bar>)]"
  using assms by (simp add: doJog_unfold writeReg_opened)

lemma doJog_ok:
  assumes "open_error e (opened s) = None" "open_error e (Suc (opened s)) = None"
    and "xfer_reply e (length (sent s)) = Inr rx1" "xfer_reply e (Suc (length (sent s))) = Inr rx2"
  shows "doJog e m rpm s =
           (None, s\<lparr>regops := regops s @ jogOps e m rpm,
                    sent := sent s @ [writeFrame m rampMode (if rpm < 0 then modeVelNeg else modeVelPos),
                                      writeFrame m vMax (Motor_rpmToV (fround e) m \<bar>rpm\<bar>)],
                    opened := opened s + 2, closed := closed s + 2\<rparr>)"
  using assms by (simp add: doJog_unfold writeReg_opened jogOps_def Combine_def)

lemma doJog_bus_fails:
  assumes "open_error e (opened s) = None" "open_error e (Suc (opened s)) = None"
    and "xfer_reply e (length (sent s)) = Inl (BusError c1)"
    and "xfer_reply e (Suc (length (sent s))) = Inl (BusError c2)"
  shows "doJog e m rpm s =
           (Some (MultiError [BusError c1, BusError c2]),
            s\<lparr>regops := regops s @ jogOps e m rpm,
              sent := sent s @ [writeFrame m rampMode (if rpm < 0 then modeVelNeg else modeVelPos),
                                writeFrame m vMax (Motor_rpmToV (fround e) m \<bar>rpm\<bar>)],
              opened := opened s + 2, closed := closed s + 2\<rparr>)"
  using assms by (simp add: doJog_unfold writeReg_opened jogOps_def Combine_def)

lemma Motor_rpmToV_zero:
  "fround e 0 = 0 \<Longrightarrow> 0 \<le> maxRPM m \<Longrightarrow> Motor_rpmToV (fround e) m 0 = 0"
  by (simp add: Motor_rpmToV_eq rpmToV_zero)

text \<open>
  \<^verbatim>\<open>Stop\<close> makes exactly two register calls and no other register access, whatever the state:
  ramp-mode is set to velocity-forward (value 1), then max-velocity is set to the
  velocity-register conversion of rpm 0.  That value is 0 for every driver whose \<^verbatim>\<open>maxRPM\<close> is
  not negative (with a rounding that fixes 0).  It waits for nothing, signals the operation
  manager once and, when both bus handles open, sends exactly the two write frames.
\<close>

theorem Stop_two_writes:
  "regops (snd (Stop e m s)) =
     regops s @ [RegWrite rampMode modeVelPos, RegWrite vMax (Motor_rpmToV (fround e) m 0)]
   \<and> modeVelPos = 1
   \<and> waits (snd (Stop e m s)) = waits s
   \<and> cancels (snd (Stop e m s)) = cancels s + 1
   \<and> (fround e 0 = 0 \<and> 0 \<le> maxRPM m \<longrightarrow> Motor_rpmToV (fround e) m 0 = 0)
   \<and> (open_error e (opened s) = None \<and> open_error e (Suc (opened s)) = None \<longrightarrow>
        sent (snd (Stop e m s)) =
          sent s @ [writeFrame m rampMode modeVelPos,
                    writeFrame m vMax (Motor_rpmToV (fround e) m 0)])"
proof -
  have c1: "regops (snd (Stop e m s)) =
     regops s @ [RegWrite rampMode modeVelPos, RegWrite vMax (Motor_rpmToV (fround e) m 0)]"
    by (simp add: Stop_def jogOps_def CancelRunning_def)
  have c3: "waits (snd (Stop e m s)) = waits s" "cancels (snd (Stop e m s)) = cancels s + 1"
    by (simp_all add: Stop_def CancelRunning_def)
  have c5: "fround e 0 = 0 \<and> 0 \<le> maxRPM m \<longrightarrow> Motor_rpmToV (fround e) m 0 = 0"
    by (simp add: Motor_rpmToV_zero)
  have c6: "open_error e (opened s) = None \<and> open_error e (Suc (opened s)) = None \<longrightarrow>
        sent (snd (Stop e m s)) =
          sent s @ [writeFrame m rampMode modeVelPos,
                    writeFrame m vMax (Motor_rpmToV (fround e) m 0)]"
    using doJog_sent[of e "CancelRunning s" m 0]
    by (simp add: Stop_def CancelRunning_def)
  show ?thesis
    using c1 c3 c5 c6 by (simp add: modeVelPos_def)
qed

theorem Stop_two_writes_witness:
  "fround (testEnv quietBus) 0 = 0 \<and> 0 \<le> maxRPM testMotor
   \<and> open_error (testEnv quietBus) (opened idle) = None
   \<and> open_error (testEnv quietBus) (Suc (opened idle)) = None
   \<and> regops (snd (Stop (testEnv quietBus) testMotor idle)) = [RegWrite rampMode 1, RegWrite vMax 0]
   \<and> sent (snd (Stop (testEnv quietBus) testMotor idle)) = [Frame 0xA0 0 0 0 1, Frame 0xA7 0 0 0 0]"
proof -
  have h: "fround (testEnv quietBus) 0 = 0" "0 \<le> maxRPM testMotor"
    "open_error (testEnv quietBus) (opened idle) = None"
    "open_error (testEnv quietBus) (Suc (opened idle)) = None"
    by (simp_all add: testEnv_def exact_def testMotor_def)
  have f: "writeFrame testMotor rampMode 1 = Frame 0xA0 0 0 0 1"
    "writeFrame testMotor vMax 0 = Frame 0xA7 0 0 0 0"
    by (simp_all add: writeFrame_def shiftAddr_def testMotor_def rampMode_def vMax_def)
  show ?thesis
    using h f Stop_two_writes[of "testEnv quietBus" testMotor idle]
    by (simp add: idle_def modeVelPos_def)
qed

text \<open>
  C10.  \<^verbatim>\<open>Stop\<close> is meant to stop the motor by a forward jog at velocity 0, and does so on
  every driver whose \<^verbatim>\<open>maxRPM\<close> is not negative.  On a driver configured with a negative
  \<^verbatim>\<open>max_rpm\<close> (which \<^verbatim>\<open>Validate\<close> and \<^verbatim>\<open>makeMotor\<close> accept) the code misses that: \<^verbatim>\<open>rpmToV\<close>
  clamps rpm 0 down to the negative maximum, and \<^verbatim>\<open>Stop\<close> writes a non-zero max-velocity.  With
  \<^verbatim>\<open>max_rpm = -60\<close> on the test configuration the two writes are ramp-mode 1 and max-velocity
  \<open>-65075\<close>, sent as the bytes \<open>FF FF 01 CD\<close>, and the call reports no error.
\<close>

theorem Stop_negative_max_rpm:
  "maxRPM negativeMaxMotor = - 60
   \<and> Motor_rpmToV exact negativeMaxMotor 0 = - 65075
   \<and> fst (Stop (testEnv quietBus) negativeMaxMotor idle) = None
   \<and> regops (snd (Stop (testEnv quietBus) negativeMaxMotor idle)) =
       [RegWrite rampMode 1, RegWrite vMax (- 65075)]
   \<and> sent (snd (Stop (testEnv quietBus) negativeMaxMotor idle)) =
       [Frame 0xA0 0 0 0 1, Frame 0xA7 0xFF 0xFF 0x01 0xCD]
   \<and> sint (- 65075 :: int32) = - 65075
   \<and> (- 65075 :: int32) \<noteq> 0"
proof -
  let ?e = "testEnv quietBus"
  have v: "Motor_rpmToV exact negativeMaxMotor 0 = - 65075"
    by (simp add: Motor_rpmToV_eq negativeMaxMotor_def testMotor_def converter_defs)
  have w: "(- 65075 :: int32) = 0xFFFF01CD"
    by simp
  have b1: "(0xFF :: uint8) AND ucast (signed_drop_bit 24 (0xFFFF01CD :: int32)) = 0xFF"
    by code_simp
  have b2: "(0xFF :: uint8) AND ucast (signed_drop_bit 16 (0xFFFF01CD :: int32)) = 0xFF"
    by code_simp
  have b3: "(0xFF :: uint8) AND ucast (signed_drop_bit 8 (0xFFFF01CD :: int32)) = 0x01"
    by code_simp
  have b4: "(0xFF :: uint8) AND ucast (0xFFFF01CD :: int32) = 0xCD"
    by code_simp
  note b = b1 b2 b3 b4
  have a: "shiftAddr negativeMaxMotor vMax OR 0x80 = 0xA7"
    by (simp add: shiftAddr_def negativeMaxMotor_def testMotor_def vMax_def)
  have f1: "writeFrame negativeMaxMotor rampMode 1 = Frame 0xA0 0 0 0 1"
    by (simp add: writeFrame_def shiftAddr_def negativeMaxMotor_def testMotor_def rampMode_def)
  have f2: "writeFrame negativeMaxMotor vMax (- 65075) = Frame 0xA7 0xFF 0xFF 0x01 0xCD"
    by (simp only: w writeFrame_def b a)
  note f = f1 f2
  have j: "doJog ?e negativeMaxMotor 0 (CancelRunning idle) =
             (None, (CancelRunning idle)\<lparr>regops := regops (CancelRunning idle) @ jogOps ?e negativeMaxMotor 0,
                sent := sent (CancelRunning idle) @
                  [writeFrame negativeMaxMotor rampMode (if (0::real) < 0 then modeVelNeg else modeVelPos),
                   writeFrame negativeMaxMotor vMax (Motor_rpmToV (fround ?e) negativeMaxMotor \<bar>0\<bar>)],
                opened := opened (CancelRunning idle) + 2, closed := closed (CancelRunning idle) + 2\<rparr>)"
    using doJog_ok[of ?e "CancelRunning idle" "Frame 0 0 0 0 0" "Frame 0 0 0 0 0" negativeMaxMotor 0]
    by (simp add: quietBus_def testEnv_def)
  have st: "Stop ?e negativeMaxMotor idle = doJog ?e negativeMaxMotor 0 (CancelRunning idle)"
    by (simp add: Stop_def)
  have c1: "maxRPM negativeMaxMotor = - 60"
    by (simp add: negativeMaxMotor_def)
  have c3: "fst (Stop ?e negativeMaxMotor idle) = None"
    unfolding st j by simp
  have c4: "regops (snd (Stop ?e negativeMaxMotor idle)) =
       [RegWrite rampMode 1, RegWrite vMax (- 65075)]"
    using v by (simp add: Stop_def jogOps_def CancelRunning_def idle_def testEnv_def
        modeVelPos_def)
  have c5: "sent (snd (Stop ?e negativeMaxMotor idle)) =
       [Frame 0xA0 0 0 0 1, Frame 0xA7 0xFF 0xFF 0x01 0xCD]"
    unfolding st j using v f
    by (simp add: CancelRunning_def idle_def modeVelPos_def testEnv_def)
  have c6: "sint (- 65075 :: int32) = - 65075" "(- 65075 :: int32) \<noteq> 0"
    by simp_all
  show ?thesis
    using c1 v c3 c4 c5 c6 by (intro conjI)
qed

subsection \<open>GoFor\<close>

text \<open>
  C5.  For every rotations value (and every \<^verbatim>\<open>extra\<close> and state), \<^verbatim>\<open>GoFor\<close> with rpm exactly 0
  returns the zero-rpm error, a constructor of its own among the errors, and leaves the state
  as it was: no register call, no handle opened, no transfer.  The error comes from rdk's
  \<^verbatim>\<open>motor.CheckSpeed\<close>, whose answer for speed 0 is the hypothesis.
\<close>

theorem GoFor_zero_rpm:
  assumes "snd (checkSpeed e 0 (maxRPM m)) = Some ZeroRPMError"
  shows "GoFor e m 0 rotations extra s = (Returns (Some ZeroRPMError), s)"
  using assms by (cases "checkSpeed e 0 (maxRPM m)") (simp add: GoFor_def)

theorem GoFor_zero_rpm_witness:
  "snd (checkSpeed (testEnv quietBus) 0 (maxRPM testMotor)) = Some ZeroRPMError
   \<and> GoFor (testEnv quietBus) testMotor 0 (33 / 5) None idle = (Returns (Some ZeroRPMError), idle)"
proof -
  have h: "snd (checkSpeed (testEnv quietBus) 0 (maxRPM testMotor)) = Some ZeroRPMError"
    by (simp add: testEnv_def testCheckSpeed_def)
  show ?thesis
    using h GoFor_zero_rpm[OF h, of "33 / 5" None idle] by simp
qed

subsection \<open>Status polls\<close>

lemma IsStopped_ok:
  "open_error e (opened s) = None \<Longrightarrow> xfer_reply e (length (sent s)) = Inr rx \<Longrightarrow>
   xfer_reply e (Suc (length (sent s))) = Inr rbuf \<Longrightarrow>
   IsStopped e m s =
     ((motionStopped rbuf, None),
      s\<lparr>regops := regops s @ [RegRead rampStat],
        sent := sent s @ [readFrame m rampStat, readFrame m rampStat],
        opened := opened s + 1, closed := closed s + 1\<rparr>)"
  by (simp add: IsStopped_def readReg_ok motionStopped_def)

lemma AtVelocity_ok:
  "open_error e (opened s) = None \<Longrightarrow> xfer_reply e (length (sent s)) = Inr rx \<Longrightarrow>
   xfer_reply e (Suc (length (sent s))) = Inr rbuf \<Longrightarrow>
   AtVelocity e m s =
     ((velocityReached rbuf, None),
      s\<lparr>regops := regops s @ [RegRead rampStat],
        sent := sent s @ [readFrame m rampStat, readFrame m rampStat],
        opened := opened s + 1, closed := closed s + 1\<rparr>)"
  by (simp add: AtVelocity_def readReg_ok velocityReached_def)

lemma AtVelocity_state: "snd (AtVelocity e m s) = snd (readReg e m rampStat s)"
  by (cases "readReg e m rampStat s"; cases "fst (readReg e m rampStat s)")
    (simp_all add: AtVelocity_def)

lemma AtVelocity_regops [simp]:
  "regops (snd (AtVelocity e m s)) = regops s @ [RegRead rampStat]"
  by (simp add: AtVelocity_state)

lemma IsStopped_state: "snd (IsStopped e m s) = snd (readReg e m rampStat s)"
  by (cases "readReg e m rampStat s"; cases "fst (readReg e m rampStat s)")
    (simp_all add: IsStopped_def)

lemma IsStopped_regops [simp]:
  "regops (snd (IsStopped e m s)) = regops s @ [RegRead rampStat]"
  by (simp add: IsStopped_state)

lemma IsStopped_waits [simp]: "waits (snd (IsStopped e m s)) = waits s"
  by (simp add: IsStopped_state)

lemma IsStopped_true_no_error:
  "fst (fst (IsStopped e m s)) \<Longrightarrow> snd (fst (IsStopped e m s)) = None"
  by (cases "readReg e m rampStat s"; cases "fst (readReg e m rampStat s)")
    (simp_all add: IsStopped_def)

lemma IsPowered_state: "snd (IsPowered e m s) = snd (IsStopped e m s)"
  by (simp add: IsPowered_def IsMoving_def split: prod.splits)

lemma IsPowered_on: "fst (fst (IsPowered e m s)) = (\<not> fst (fst (IsStopped e m s)))"
  by (simp add: IsPowered_def IsMoving_def split: prod.splits)

lemma IsPowered_error:
  "snd (snd (fst (IsPowered e m s))) =
     Wrapf (snd (fst (IsStopped e m s))) (motorText ''error in IsPowered'' m)"
  by (simp add: IsPowered_def IsMoving_def Wrapf_def split: prod.splits)

lemma IsPowered_off_no_error:
  "\<not> fst (fst (IsPowered e m s)) \<Longrightarrow> snd (snd (fst (IsPowered e m s))) = None"
  by (simp add: IsPowered_on IsPowered_error IsStopped_true_no_error Wrapf_def)

subsection \<open>applyRampParameters and ResetZeroPosition\<close>

lemma applyRampParameters_complete:
  assumes "rampComplete p"
  shows "\<exists>err. fst (applyRampParameters e m p s) = Returns err"
    and "regops (snd (applyRampParameters e m p s)) = regops s @ rampOps p"
proof -
  obtain x1 x2 x3 x4 x5 x6 x7 where
    p: "A1 p = Some x1" "AMax p = Some x2" "D1 p = Some x3" "DMax p = Some x4"
       "VStart p = Some x5" "VStop p = Some x6" "V1 p = Some x7"
    using assms by (auto simp: rampComplete_def)
  show "\<exists>err. fst (applyRampParameters e m p s) = Returns err"
    by (simp add: applyRampParameters_def p case_prod_beta)
  show "regops (snd (applyRampParameters e m p s)) = regops s @ rampOps p"
    by (simp add: applyRampParameters_def p case_prod_beta rampOps_def)
qed

lemma rampOps_other_registers:
  "list_all (\<lambda>op. \<not> writesTo {rampMode, xTarget, xActual} op) (rampOps p)"
  by (simp add: rampOps_def writesTo_def rampMode_def xTarget_def xActual_def a1_def aMax_def
      d1_def dMax_def vStart_def vStop_def v1_def)

lemma ResetZeroPosition_on:
  assumes "fst (fst (IsPowered e m s))"
  shows "\<exists>err. fst (ResetZeroPosition e m offset s) = Returns (Some err)"
    and "snd (ResetZeroPosition e m offset s) = snd (IsPowered e m s)"
    and "snd (snd (fst (IsPowered e m s))) = None \<Longrightarrow>
         fst (ResetZeroPosition e m offset s) =
           Returns (Some (ErrorMsg (''can't zero motor ('' @ motorName m @ '') while moving'')))"
  using assms
  by (cases "IsPowered e m s"; cases "fst (IsPowered e m s)";
      auto simp: ResetZeroPosition_def Wrapf_def)+

lemma ResetZeroPosition_off:
  assumes "\<not> fst (fst (IsPowered e m s))" "rampComplete (rampParams m)"
  shows "\<exists>err. fst (ResetZeroPosition e m offset s) = Returns err"
    and "regops (snd (ResetZeroPosition e m offset s)) =
           regops s @ [RegRead rampStat, RegWrite rampMode modeHold] @ rampOps (rampParams m)
             @ [RegWrite xTarget (zeroOffsetSteps e m offset),
                RegWrite xActual (zeroOffsetSteps e m offset)]"
proof -
  obtain on pct err s0 where ip: "IsPowered e m s = ((on, pct, err), s0)"
    by (metis prod.exhaust)
  have off: "\<not> on" "err = None"
    using assms(1) IsPowered_off_no_error[of e m s] by (simp_all add: ip)
  have s0: "regops s0 = regops s @ [RegRead rampStat]"
    using IsPowered_state[of e m s] IsStopped_regops[of e m s] by (simp add: ip)
  let ?s1 = "snd (writeReg e m rampMode modeHold s0)"
  obtain e2 where a: "fst (applyRampParameters e m (rampParams m) ?s1) = Returns e2"
    using applyRampParameters_complete(1)[OF assms(2)] by blast
  have r: "regops (snd (applyRampParameters e m (rampParams m) ?s1)) =
             regops ?s1 @ rampOps (rampParams m)"
    using applyRampParameters_complete(2)[OF assms(2)] .
  obtain s2 where ap: "applyRampParameters e m (rampParams m) ?s1 = (Returns e2, s2)"
    using a by (metis prod.collapse)
  have s2: "regops s2 = regops s @ [RegRead rampStat, RegWrite rampMode modeHold] @ rampOps (rampParams m)"
    using r s0 by (simp add: ap)
  show "\<exists>err. fst (ResetZeroPosition e m offset s) = Returns err"
    by (simp add: ResetZeroPosition_def ip off ap case_prod_beta)
  show "regops (snd (ResetZeroPosition e m offset s)) =
           regops s @ [RegRead rampStat, RegWrite rampMode modeHold] @ rampOps (rampParams m)
             @ [RegWrite xTarget (zeroOffsetSteps e m offset),
                RegWrite xActual (zeroOffsetSteps e m offset)]"
    by (simp add: ResetZeroPosition_def ip off ap case_prod_beta s2)
qed

lemma zeroOffsetSteps_trunc:
  assumes "- (2 ^ 31) \<le> float_to_int (fround e (fround e (- offset) * float64_of_int (fround e) (stepsPerRev m)))"
    and "float_to_int (fround e (fround e (- offset) * float64_of_int (fround e) (stepsPerRev m))) < 2 ^ 31"
  shows "sint (zeroOffsetSteps e m offset) =
           float_to_int (fround e (fround e (- offset) * float64_of_int (fround e) (stepsPerRev m)))"
  using assms by (simp add: zeroOffsetSteps_def int32_of_float_def sint_word_of_int_32)

text \<open>
  C4 (as the code has it).  When the motor reports not powered, \<^verbatim>\<open>ResetZeroPosition\<close> reads the
  status, sets ramp-mode to Hold (value 3) and ends with writes of the target-position and the
  actual-position register, both to \<^verbatim>\<open>int32(-1*offset*float64(stepsPerRev))\<close>: the product
  truncated toward zero (not rounded to the nearest integer) whenever that fits 32 bits.  No
  other write goes to those three registers.  When the motor reports powered the call fails, with
  the "while moving" error if the status read itself succeeded, and performs no register write:
  the state is the one the status read left.  (The driver's ramp parameters are complete, as
  those built by \<^verbatim>\<open>initRampParameters\<close> are.)
\<close>

theorem ResetZeroPosition_writes:
  "(\<not> fst (fst (IsPowered e m s)) \<and> rampComplete (rampParams m) \<longrightarrow>
      (\<exists>err. fst (ResetZeroPosition e m offset s) = Returns err)
      \<and> (\<exists>mid. regops (snd (ResetZeroPosition e m offset s)) =
                  regops s @ [RegRead rampStat, RegWrite rampMode modeHold] @ mid
                    @ [RegWrite xTarget (zeroOffsetSteps e m offset),
                       RegWrite xActual (zeroOffsetSteps e m offset)]
                \<and> list_all (\<lambda>op. \<not> writesTo {rampMode, xTarget, xActual} op) mid))
   \<and> modeHold = 3
   \<and> (- (2 ^ 31) \<le> float_to_int (fround e (fround e (- offset) * float64_of_int (fround e) (stepsPerRev m)))
      \<and> float_to_int (fround e (fround e (- offset) * float64_of_int (fround e) (stepsPerRev m))) < 2 ^ 31 \<longrightarrow>
      sint (zeroOffsetSteps e m offset) =
        float_to_int (fround e (fround e (- offset) * float64_of_int (fround e) (stepsPerRev m))))
   \<and> (fst (fst (IsPowered e m s)) \<longrightarrow>
        (\<exists>err. fst (ResetZeroPosition e m offset s) = Returns (Some err))
        \<and> snd (ResetZeroPosition e m offset s) = snd (IsPowered e m s)
        \<and> regops (snd (ResetZeroPosition e m offset s)) = regops s @ [RegRead rampStat])
   \<and> (fst (fst (IsPowered e m s)) \<and> snd (snd (fst (IsPowered e m s))) = None \<longrightarrow>
        fst (ResetZeroPosition e m offset s) =
          Returns (Some (ErrorMsg (''can't zero motor ('' @ motorName m @ '') while moving''))))"
proof -
  have c1: "\<not> fst (fst (IsPowered e m s)) \<and> rampComplete (rampParams m) \<longrightarrow>
      (\<exists>err. fst (ResetZeroPosition e m offset s) = Returns err)
      \<and> (\<exists>mid. regops (snd (ResetZeroPosition e m offset s)) =
                  regops s @ [RegRead rampStat, RegWrite rampMode modeHold] @ mid
                    @ [RegWrite xTarget (zeroOffsetSteps e m offset),
                       RegWrite xActual (zeroOffsetSteps e m offset)]
                \<and> list_all (\<lambda>op. \<not> writesTo {rampMode, xTarget, xActual} op) mid)"
    using ResetZeroPosition_off[of e m s offset] rampOps_other_registers[of "rampParams m"]
    by blast
  have c2: "modeHold = 3" by (simp add: modeHold_def)
  have c3: "- (2 ^ 31) \<le> float_to_int (fround e (fround e (- offset) * float64_of_int (fround e) (stepsPerRev m)))
      \<and> float_to_int (fround e (fround e (- offset) * float64_of_int (fround e) (stepsPerRev m))) < 2 ^ 31 \<longrightarrow>
      sint (zeroOffsetSteps e m offset) =
        float_to_int (fround e (fround e (- offset) * float64_of_int (fround e) (stepsPerRev m)))"
    using zeroOffsetSteps_trunc[of e offset m] by blast
  have c4: "fst (fst (IsPowered e m s)) \<longrightarrow>
        (\<exists>err. fst (ResetZeroPosition e m offset s) = Returns (Some err))
        \<and> snd (ResetZeroPosition e m offset s) = snd (IsPowered e m s)
        \<and> regops (snd (ResetZeroPosition e m offset s)) = regops s @ [RegRead rampStat]"
    using ResetZeroPosition_on(1,2)[of e m s offset]
    by (simp add: IsPowered_state)
  have c5: "fst (fst (IsPowered e m s)) \<and> snd (snd (fst (IsPowered e m s))) = None \<longrightarrow>
        fst (ResetZeroPosition e m offset s) =
          Returns (Some (ErrorMsg (''can't zero motor ('' @ motorName m @ '') while moving'')))"
    using ResetZeroPosition_on(3)[of e m s offset] by blast
  show ?thesis
    using c1 c2 c3 c4 c5 by (intro conjI)
qed


lemma status_frames:
  "motionStopped (Frame 0 0 0 4 0)" "\<not> motionStopped (Frame 0 0 0 0 0)"
  "motionStopped (Frame 0 0 0 5 0)" "velocityReached (Frame 0 0 0 5 0)"
  "\<not> velocityReached (Frame 0 0 0 0 0)"
  by (simp_all add: motionStopped_def velocityReached_def decodeValue_def)

lemma testMotor_ramp:
  "rampParams testMotor =
     \<lparr>VStart = Some 1, VStop = Some 10, V1 = Some 135573, A1 = Some 5384, D1 = Some 5384,
      VMax = Some 0, AMax = Some 5384, DMax = Some 5384\<rparr>"
  by (simp add: testMotor_def initRampParameters_def converter_defs)

lemma testEnv_fields [simp]:
  "fround (testEnv bus) = exact" "checkSpeed (testEnv bus) = testCheckSpeed"
  "open_error (testEnv bus) k = None" "xfer_reply (testEnv bus) = bus" "ctx_alive (testEnv bus) k"
  by (simp_all add: testEnv_def)

theorem ResetZeroPosition_writes_witness:
  "\<not> fst (fst (IsPowered (testEnv stoppedBus) testMotor idle))
   \<and> rampComplete (rampParams testMotor)
   \<and> (\<exists>mid. regops (snd (ResetZeroPosition (testEnv stoppedBus) testMotor (31 / 10) idle)) =
               [RegRead rampStat, RegWrite rampMode 3] @ mid
                 @ [RegWrite xTarget (- 158720), RegWrite xActual (- 158720)])
   \<and> sint (zeroOffsetSteps (testEnv stoppedBus) testMotor (31 / 10)) = - 158720
   \<and> fst (fst (IsPowered (testEnv quietBus) testMotor idle))
   \<and> snd (snd (fst (IsPowered (testEnv quietBus) testMotor idle))) = None
   \<and> regops (snd (ResetZeroPosition (testEnv quietBus) testMotor (31 / 10) idle)) = [RegRead rampStat]
   \<and> fst (ResetZeroPosition (testEnv quietBus) testMotor (31 / 10) idle) =
       Returns (Some (ErrorMsg ''can't zero motor (motor1) while moving''))"
proof -
  have st: "IsStopped (testEnv stoppedBus) testMotor idle =
              ((True, None), idle\<lparr>regops := [RegRead rampStat],
                 sent := [readFrame testMotor rampStat, readFrame testMotor rampStat],
                 opened := 1, closed := 1\<rparr>)"
    using IsStopped_ok[of "testEnv stoppedBus" idle "Frame 0 0 0 4 0" "Frame 0 0 0 4 0" testMotor]
    by (simp add: stoppedBus_def status_frames idle_def)
  have mv: "IsStopped (testEnv quietBus) testMotor idle =
              ((False, None), idle\<lparr>regops := [RegRead rampStat],
                 sent := [readFrame testMotor rampStat, readFrame testMotor rampStat],
                 opened := 1, closed := 1\<rparr>)"
    using IsStopped_ok[of "testEnv quietBus" idle "Frame 0 0 0 0 0" "Frame 0 0 0 0 0" testMotor]
    by (simp add: quietBus_def status_frames idle_def)
  have off: "\<not> fst (fst (IsPowered (testEnv stoppedBus) testMotor idle))"
    by (simp add: IsPowered_on st)
  have on: "fst (fst (IsPowered (testEnv quietBus) testMotor idle))"
    "snd (snd (fst (IsPowered (testEnv quietBus) testMotor idle))) = None"
    by (simp_all add: IsPowered_on IsPowered_error mv Wrapf_def)
  have rc: "rampComplete (rampParams testMotor)"
    by (simp add: testMotor_ramp rampComplete_def)
  let ?x = "float_to_int (fround (testEnv stoppedBus) (fround (testEnv stoppedBus) (- (31 / 10))
             * float64_of_int (fround (testEnv stoppedBus)) (stepsPerRev testMotor)))"
  have x: "?x = - 158720"
    by (simp add: testMotor_def converter_defs)
  have xr: "- (2 ^ 31) \<le> ?x \<and> ?x < 2 ^ 31"
    unfolding x by simp
  have v: "zeroOffsetSteps (testEnv stoppedBus) testMotor (31 / 10) = - 158720"
    by (simp add: zeroOffsetSteps_def testMotor_def converter_defs)
  have nm: "motorName testMotor = ''motor1''" "regops idle = []"
    by (simp_all add: testMotor_def idle_def)
  note stopped = ResetZeroPosition_writes[of "testEnv stoppedBus" testMotor idle "31 / 10"]
  note moving = ResetZeroPosition_writes[of "testEnv quietBus" testMotor idle "31 / 10"]
  have a: "\<exists>mid. regops (snd (ResetZeroPosition (testEnv stoppedBus) testMotor (31 / 10) idle)) =
               [RegRead rampStat, RegWrite rampMode 3] @ mid
                 @ [RegWrite xTarget (- 158720), RegWrite xActual (- 158720)]"
  proof -
    from stopped off rc obtain mid where
      "regops (snd (ResetZeroPosition (testEnv stoppedBus) testMotor (31 / 10) idle)) =
         regops idle @ [RegRead rampStat, RegWrite rampMode modeHold] @ mid
           @ [RegWrite xTarget (zeroOffsetSteps (testEnv stoppedBus) testMotor (31 / 10)),
              RegWrite xActual (zeroOffsetSteps (testEnv stoppedBus) testMotor (31 / 10))]"
      by blast
    then show ?thesis
      by (simp add: v nm modeHold_def)
  qed
  have b: "sint (zeroOffsetSteps (testEnv stoppedBus) testMotor (31 / 10)) = - 158720"
  proof -
    from stopped xr have "sint (zeroOffsetSteps (testEnv stoppedBus) testMotor (31 / 10)) = ?x"
      by blast
    then show ?thesis by (simp only: x)
  qed
  have c: "regops (snd (ResetZeroPosition (testEnv quietBus) testMotor (31 / 10) idle)) = [RegRead rampStat]"
  proof -
    from moving on(1) have
      "regops (snd (ResetZeroPosition (testEnv quietBus) testMotor (31 / 10) idle)) =
         regops idle @ [RegRead rampStat]"
      by blast
    then show ?thesis by (simp add: nm)
  qed
  have d: "fst (ResetZeroPosition (testEnv quietBus) testMotor (31 / 10) idle) =
       Returns (Some (ErrorMsg ''can't zero motor (motor1) while moving''))"
  proof -
    from moving on have
      "fst (ResetZeroPosition (testEnv quietBus) testMotor (31 / 10) idle) =
         Returns (Some (ErrorMsg (''can't zero motor ('' @ motorName testMotor @ '') while moving'')))"
      by blast
    then show ?thesis by (simp add: nm)
  qed
  show ?thesis
    using off rc a b on c d by (intro conjI)
qed

text \<open>
  The claim as stated fails where the product is not integral: with 256 steps per revolution
  and offset 0.003 the product is \<open>-0.768\<close>, which rounds to \<open>-1\<close>, and the code writes 0
  to both position registers.
\<close>

theorem ResetZeroPosition_round_counterexample:
  "regops (snd (ResetZeroPosition (testEnv stoppedBus) coarseMotor (3 / 1000) idle)) =
     [RegRead rampStat, RegWrite rampMode 3,
      RegWrite a1 5384, RegWrite aMax 5384, RegWrite d1 5384, RegWrite dMax 5384,
      RegWrite vStart 1, RegWrite vStop 10, RegWrite v1 135573,
      RegWrite xTarget 0, RegWrite xActual 0]
   \<and> round (- 1 * (3 / 1000) * real_of_int (stepsPerRev coarseMotor)) = - 1
   \<and> (word_of_int (round (- 1 * (3 / 1000) * real_of_int (stepsPerRev coarseMotor))) :: int32) \<noteq> 0"
proof -
  have st: "IsStopped (testEnv stoppedBus) coarseMotor idle =
              ((True, None), idle\<lparr>regops := [RegRead rampStat],
                 sent := [readFrame coarseMotor rampStat, readFrame coarseMotor rampStat],
                 opened := 1, closed := 1\<rparr>)"
    using IsStopped_ok[of "testEnv stoppedBus" idle "Frame 0 0 0 4 0" "Frame 0 0 0 4 0" coarseMotor]
    by (simp add: stoppedBus_def status_frames idle_def)
  have off: "\<not> fst (fst (IsPowered (testEnv stoppedBus) coarseMotor idle))"
    by (simp add: IsPowered_on st)
  have rp: "rampParams coarseMotor = rampParams testMotor"
    by (simp add: coarseMotor_def)
  have rc: "rampComplete (rampParams coarseMotor)"
    by (simp add: rp testMotor_ramp rampComplete_def)
  have v: "zeroOffsetSteps (testEnv stoppedBus) coarseMotor (3 / 1000) = 0"
    by (simp add: zeroOffsetSteps_def coarseMotor_def testMotor_def converter_defs)
  have r: "round (- 1 * (3 / 1000) * real_of_int (stepsPerRev coarseMotor)) = - 1"
    by (simp add: coarseMotor_def testMotor_def round_def)
  show ?thesis
    using ResetZeroPosition_off(2)[OF off rc, of "3 / 1000"] v r
    by (simp add: rampOps_def rp testMotor_ramp modeHold_def idle_def)
qed

subsection \<open>goTillStop: the register operations on every way out\<close>

declare upToSpeed.simps [simp del] atEndstop.simps [simp del]

lemma upToSpeed_step:
  "upToSpeed e m stopFunc fails s =
     (if \<not> ctx_alive e (waits s)
      then (Return (Some (ErrorMsg
             ''context cancelled: duration timeout trying to get up to speed while homing'')),
            s\<lparr>waits := waits s + 1\<rparr>)
      else if stopRequested stopFunc (s\<lparr>waits := waits s + 1\<rparr>)
      then (Return None, s\<lparr>waits := waits s + 1\<rparr>)
      else if snd (fst (AtVelocity e m (s\<lparr>waits := waits s + 1\<rparr>))) \<noteq> None
      then (Return (snd (fst (AtVelocity e m (s\<lparr>waits := waits s + 1\<rparr>)))),
            snd (AtVelocity e m (s\<lparr>waits := waits s + 1\<rparr>)))
      else if fst (fst (AtVelocity e m (s\<lparr>waits := waits s + 1\<rparr>)))
      then (Break, snd (AtVelocity e m (s\<lparr>waits := waits s + 1\<rparr>)))
      else if fails \<ge> 500
      then (Return (Some (ErrorMsg
             ''over 500 failures trying to get up to speed while homing'')),
            snd (AtVelocity e m (s\<lparr>waits := waits s + 1\<rparr>)))
      else upToSpeed e m stopFunc (Suc fails) (snd (AtVelocity e m (s\<lparr>waits := waits s + 1\<rparr>))))"
  by (subst upToSpeed.simps)
    (simp add: SelectContextOrWait_def split: prod.splits option.splits bool.splits)

lemma atEndstop_step:
  "atEndstop e m stopFunc fails s =
     (if \<not> ctx_alive e (waits s)
      then (Return (Some (ErrorMsg
             ''context cancelled: duration timeout trying to stop at the endstop while homing'')),
            s\<lparr>waits := waits s + 1\<rparr>)
      else if stopRequested stopFunc (s\<lparr>waits := waits s + 1\<rparr>)
      then (Return None, s\<lparr>waits := waits s + 1\<rparr>)
      else if snd (fst (IsStopped e m (s\<lparr>waits := waits s + 1\<rparr>))) \<noteq> None
      then (Return (snd (fst (IsStopped e m (s\<lparr>waits := waits s + 1\<rparr>)))),
            snd (IsStopped e m (s\<lparr>waits := waits s + 1\<rparr>)))
      else if fst (fst (IsStopped e m (s\<lparr>waits := waits s + 1\<rparr>)))
      then (Break, snd (IsStopped e m (s\<lparr>waits := waits s + 1\<rparr>)))
      else if fails \<ge> 10000
      then (Return (Some (ErrorMsg
             ''over 1000 failures trying to stop at endstop while homing'')),
            snd (IsStopped e m (s\<lparr>waits := waits s + 1\<rparr>)))
      else atEndstop e m stopFunc (Suc fails) (snd (IsStopped e m (s\<lparr>waits := waits s + 1\<rparr>))))"
  by (subst atEndstop.simps)
    (simp add: SelectContextOrWait_def split: prod.splits option.splits bool.splits)

lemma upToSpeed_regops:
  "\<exists>n. regops (snd (upToSpeed e m stopFunc fails s)) = regops s @ replicate n (RegRead rampStat)"
proof (induction "500 - fails" arbitrary: fails s)
  case 0
  then have f: "fails \<ge> 500" by simp
  have "regops (snd (upToSpeed e m stopFunc fails s)) = regops s @ replicate 0 (RegRead rampStat)
        \<or> regops (snd (upToSpeed e m stopFunc fails s)) = regops s @ replicate 1 (RegRead rampStat)"
    unfolding upToSpeed_step[of e m stopFunc fails s] by (simp add: f)
  then show ?case by blast
next
  case (Suc k)
  let ?s2 = "snd (AtVelocity e m (s\<lparr>waits := waits s + 1\<rparr>))"
  have f: "\<not> fails \<ge> 500" using Suc.hyps(2) by simp
  have k: "k = 500 - Suc fails" using Suc.hyps(2) by simp
  obtain n where ih: "regops (snd (upToSpeed e m stopFunc (Suc fails) ?s2)) =
      regops ?s2 @ replicate n (RegRead rampStat)"
    using Suc.hyps(1)[OF k] by blast
  have rec: "regops (snd (upToSpeed e m stopFunc (Suc fails) ?s2)) =
      regops s @ replicate (Suc n) (RegRead rampStat)"
    using ih by simp
  have "regops (snd (upToSpeed e m stopFunc fails s)) = regops s @ replicate 0 (RegRead rampStat)
        \<or> regops (snd (upToSpeed e m stopFunc fails s)) = regops s @ replicate 1 (RegRead rampStat)
        \<or> regops (snd (upToSpeed e m stopFunc fails s)) = regops s @ replicate (Suc n) (RegRead rampStat)"
    unfolding upToSpeed_step[of e m stopFunc fails s] using rec by (simp add: f)
  then show ?case by blast
qed

lemma atEndstop_regops:
  "\<exists>n. regops (snd (atEndstop e m stopFunc fails s)) = regops s @ replicate n (RegRead rampStat)"
proof (induction "10000 - fails" arbitrary: fails s)
  case 0
  then have f: "fails \<ge> 10000" by simp
  have "regops (snd (atEndstop e m stopFunc fails s)) = regops s @ replicate 0 (RegRead rampStat)
        \<or> regops (snd (atEndstop e m stopFunc fails s)) = regops s @ replicate 1 (RegRead rampStat)"
    unfolding atEndstop_step[of e m stopFunc fails s] by (simp add: f)
  then show ?case by blast
next
  case (Suc k)
  let ?s2 = "snd (IsStopped e m (s\<lparr>waits := waits s + 1\<rparr>))"
  have f: "\<not> fails \<ge> 10000" using Suc.hyps(2) by simp
  have k: "k = 10000 - Suc fails" using Suc.hyps(2) by simp
  obtain n where ih: "regops (snd (atEndstop e m stopFunc (Suc fails) ?s2)) =
      regops ?s2 @ replicate n (RegRead rampStat)"
    using Suc.hyps(1)[OF k] by blast
  have rec: "regops (snd (atEndstop e m stopFunc (Suc fails) ?s2)) =
      regops s @ replicate (Suc n) (RegRead rampStat)"
    using ih by simp
  have "regops (snd (atEndstop e m stopFunc fails s)) = regops s @ replicate 0 (RegRead rampStat)
        \<or> regops (snd (atEndstop e m stopFunc fails s)) = regops s @ replicate 1 (RegRead rampStat)
        \<or> regops (snd (atEndstop e m stopFunc fails s)) = regops s @ replicate (Suc n) (RegRead rampStat)"
    unfolding atEndstop_step[of e m stopFunc fails s] using rec by (simp add: f)
  then show ?case by blast
qed

lemma goTillStop_body_regops:
  "\<exists>ops. regops (snd (goTillStop_body e m stopFunc s)) = regops s @ ops
         \<and> set ops \<subseteq> {RegRead rampStat, RegWrite swMode 0x400}"
proof -
  obtain x s1 where u: "upToSpeed e m stopFunc 0 s = (x, s1)"
    by (metis prod.exhaust)
  obtain n where n: "regops s1 = regops s @ replicate n (RegRead rampStat)"
    using upToSpeed_regops[of e m stopFunc 0 s] by (auto simp: u)
  show ?thesis
  proof (cases x)
    case (Return r)
    have "regops (snd (goTillStop_body e m stopFunc s)) = regops s @ replicate n (RegRead rampStat)"
      by (simp add: goTillStop_body_def u Return n)
    moreover have "set (replicate n (RegRead rampStat)) \<subseteq> {RegRead rampStat, RegWrite swMode 0x400}"
      by auto
    ultimately show ?thesis by blast
  next
    case Break
    obtain w s2 where w: "writeReg e m swMode 0x400 s1 = (w, s2)"
      by (metis prod.exhaust)
    have s2: "regops s2 = regops s @ replicate n (RegRead rampStat) @ [RegWrite swMode 0x400]"
      using writeReg_regops[of e m swMode "0x400" s1] by (simp add: w n)
    show ?thesis
    proof (cases w)
      case (Some err)
      have "regops (snd (goTillStop_body e m stopFunc s)) =
              regops s @ (replicate n (RegRead rampStat) @ [RegWrite swMode 0x400])"
        by (simp add: goTillStop_body_def u Break w Some s2)
      moreover have "set (replicate n (RegRead rampStat) @ [RegWrite swMode 0x400])
                       \<subseteq> {RegRead rampStat, RegWrite swMode 0x400}"
        by auto
      ultimately show ?thesis by blast
    next
      case None
      obtain y s3 where a: "atEndstop e m stopFunc 0 s2 = (y, s3)"
        by (metis prod.exhaust)
      obtain j where j: "regops s3 = regops s2 @ replicate j (RegRead rampStat)"
        using atEndstop_regops[of e m stopFunc 0 s2] by (auto simp: a)
      have "regops (snd (goTillStop_body e m stopFunc s)) =
              regops s @ (replicate n (RegRead rampStat) @ [RegWrite swMode 0x400]
                           @ replicate j (RegRead rampStat))"
        by (cases y) (simp_all add: goTillStop_body_def u Break w None a j s2)
      moreover have "set (replicate n (RegRead rampStat) @ [RegWrite swMode 0x400]
                           @ replicate j (RegRead rampStat))
                       \<subseteq> {RegRead rampStat, RegWrite swMode 0x400}"
        by auto
      ultimately show ?thesis by blast
    qed
  qed
qed

lemma goTillStop_cleanup_regops:
  "regops (snd (goTillStop_cleanup e m s)) = regops s @ cleanupOps e m"
  by (simp add: goTillStop_cleanup_def case_prod_beta cleanupOps_def jogOps_def)

lemma Jog_regops: "regops (snd (Jog e m rpm s)) = regops s @ jogOps e m rpm"
  by (simp add: Jog_def CancelRunning_def)

lemma goTillStop_jog_fails:
  assumes "fst (Jog e m rpm s) = Some err"
  shows "goTillStop e m rpm stopFunc s = (Some err, snd (Jog e m rpm s))"
  using assms by (cases "Jog e m rpm s") (simp add: goTillStop_def)

lemma goTillStop_jog_ok:
  assumes "fst (Jog e m rpm s) = None"
  shows "goTillStop e m rpm stopFunc s =
           (fst (goTillStop_body e m stopFunc (opMgr_New (snd (Jog e m rpm s)))),
            snd (goTillStop_cleanup e m
                   (snd (goTillStop_body e m stopFunc (opMgr_New (snd (Jog e m rpm s)))))))"
  using assms by (cases "Jog e m rpm s") (simp add: goTillStop_def case_prod_beta)

lemma goTillStop_regops:
  assumes "fst (Jog e m rpm s) = None"
  shows "\<exists>ops. regops (snd (goTillStop e m rpm stopFunc s)) =
                 regops s @ jogOps e m rpm @ ops @ cleanupOps e m
               \<and> set ops \<subseteq> {RegRead rampStat, RegWrite swMode 0x400}"
proof -
  let ?s1 = "opMgr_New (snd (Jog e m rpm s))"
  obtain ops where ops: "regops (snd (goTillStop_body e m stopFunc ?s1)) = regops ?s1 @ ops"
    "set ops \<subseteq> {RegRead rampStat, RegWrite swMode 0x400}"
    using goTillStop_body_regops[of e m stopFunc ?s1] by blast
  have s1: "regops ?s1 = regops s @ jogOps e m rpm"
    by (simp add: opMgr_New_def Jog_regops)
  have "regops (snd (goTillStop e m rpm stopFunc s)) =
          regops s @ jogOps e m rpm @ ops @ cleanupOps e m"
    by (simp add: goTillStop_jog_ok[OF assms] goTillStop_cleanup_regops ops(1) s1)
  then show ?thesis using ops(2) by blast
qed

lemma body_ops_no_cleanup:
  assumes "set ops \<subseteq> {RegRead rampStat, RegWrite swMode 0x400}"
  shows "RegWrite swMode 0 \<notin> set ops"
    and "list_all (\<lambda>op. \<not> writesTo {rampMode, vMax} op) ops"
proof -
  show "RegWrite swMode 0 \<notin> set ops"
    using assms by auto
  have "\<not> writesTo {rampMode, vMax} op" if "op \<in> set ops" for op
    using that assms by (auto simp: writesTo_def swMode_def rampMode_def vMax_def)
  then show "list_all (\<lambda>op. \<not> writesTo {rampMode, vMax} op) ops"
    by (simp add: list_all_iff)
qed

subsection \<open>goTillStop: polls that do not see the velocity bit\<close>

lemma polled_fields [simp]:
  "regops (polled m n s) = regops s @ replicate n (RegRead rampStat)"
  "sent (polled m n s) = sent s @ replicate (2 * n) (readFrame m rampStat)"
  "opened (polled m n s) = opened s + n"
  "closed (polled m n s) = closed s + n"
  "waits (polled m n s) = waits s + n"
  "cancels (polled m n s) = cancels s"
  by (simp_all add: polled_def)

lemma polled_polled: "polled m a (polled m b s) = polled m (b + a) s"
  by (simp add: polled_def replicate_add add_mult_distrib2)

lemma upToSpeed_poll:
  assumes "ctx_alive e (waits s)" "\<not> stopRequested stopFunc (s\<lparr>waits := waits s + 1\<rparr>)"
    and "open_error e (opened s) = None"
    and "xfer_reply e (length (sent s)) = Inr rx"
    and "xfer_reply e (Suc (length (sent s))) = Inr rbuf"
  shows "upToSpeed e m stopFunc fails s =
           (if velocityReached rbuf then (Break, polled m 1 s)
            else if fails \<ge> 500
            then (Return (Some (ErrorMsg
                   ''over 500 failures trying to get up to speed while homing'')), polled m 1 s)
            else upToSpeed e m stopFunc (Suc fails) (polled m 1 s))"
proof -
  have a: "AtVelocity e m (s\<lparr>waits := waits s + 1\<rparr>) = ((velocityReached rbuf, None), polled m 1 s)"
    using AtVelocity_ok[of e "s\<lparr>waits := waits s + 1\<rparr>" rx rbuf m] assms(3-5)
    by (simp add: polled_def numeral_2_eq_2)
  show ?thesis
    unfolding upToSpeed_step[of e m stopFunc fails s] using assms(1,2) a by simp
qed

lemma atEndstop_poll:
  assumes "ctx_alive e (waits s)" "\<not> stopRequested stopFunc (s\<lparr>waits := waits s + 1\<rparr>)"
    and "open_error e (opened s) = None"
    and "xfer_reply e (length (sent s)) = Inr rx"
    and "xfer_reply e (Suc (length (sent s))) = Inr rbuf"
  shows "atEndstop e m stopFunc fails s =
           (if motionStopped rbuf then (Break, polled m 1 s)
            else if fails \<ge> 10000
            then (Return (Some (ErrorMsg
                   ''over 1000 failures trying to stop at endstop while homing'')), polled m 1 s)
            else atEndstop e m stopFunc (Suc fails) (polled m 1 s))"
proof -
  have a: "IsStopped e m (s\<lparr>waits := waits s + 1\<rparr>) = ((motionStopped rbuf, None), polled m 1 s)"
    using IsStopped_ok[of e "s\<lparr>waits := waits s + 1\<rparr>" rx rbuf m] assms(3-5)
    by (simp add: polled_def numeral_2_eq_2)
  show ?thesis
    unfolding atEndstop_step[of e m stopFunc fails s] using assms(1,2) a by simp
qed

lemma polled_0 [simp]: "polled m 0 s = s"
  by (simp add: polled_def)

lemma pollPoint_0: "pollPoint m 0 s = s\<lparr>waits := waits s + 1\<rparr>"
  by (simp add: pollPoint_def)

lemma pollPoint_polled: "pollPoint m k (polled m 1 s) = pollPoint m (Suc k) s"
  by (simp add: pollPoint_def polled_polled)

lemma upToSpeed_skip:
  assumes "fails + n \<le> 500"
    and "\<forall>k<n. ctx_alive e (waits s + k)"
    and "\<forall>k<n. open_error e (opened s + k) = None"
    and "\<forall>k<n. (\<exists>rx. xfer_reply e (length (sent s) + 2 * k) = Inr rx)
           \<and> (\<exists>rbuf. xfer_reply e (length (sent s) + 2 * k + 1) = Inr rbuf
                 \<and> \<not> velocityReached rbuf)"
    and "\<forall>k<n. \<not> stopRequested stopFunc (pollPoint m k s)"
  shows "upToSpeed e m stopFunc fails s = upToSpeed e m stopFunc (fails + n) (polled m n s)"
  using assms
proof (induction n arbitrary: fails s)
  case 0
  show ?case by simp
next
  case (Suc n)
  have z: "(0::nat) < Suc n" by simp
  have c: "ctx_alive e (waits s)"
    using Suc.prems(2) z by fastforce
  have o: "open_error e (opened s) = None"
    using Suc.prems(3) z by fastforce
  have "(\<exists>rx. xfer_reply e (length (sent s) + 2 * 0) = Inr rx)
           \<and> (\<exists>rbuf. xfer_reply e (length (sent s) + 2 * 0 + 1) = Inr rbuf
                 \<and> \<not> velocityReached rbuf)"
    using Suc.prems(4) z by blast
  then obtain rx rbuf where rx: "xfer_reply e (length (sent s)) = Inr rx"
    and rb: "xfer_reply e (Suc (length (sent s))) = Inr rbuf" "\<not> velocityReached rbuf"
    by auto
  have "\<not> stopRequested stopFunc (pollPoint m 0 s)"
    using Suc.prems(5) z by blast
  then have ns: "\<not> stopRequested stopFunc (s\<lparr>waits := waits s + 1\<rparr>)"
    unfolding pollPoint_0 .
  have f: "\<not> fails \<ge> 500" using Suc.prems(1) by simp
  have step: "upToSpeed e m stopFunc fails s = upToSpeed e m stopFunc (Suc fails) (polled m 1 s)"
    using upToSpeed_poll[OF c ns o rx rb(1), of m fails] rb(2) f by simp
  have w1: "\<forall>k<n. ctx_alive e (waits (polled m 1 s) + k)"
  proof (intro allI impI)
    fix k assume "k < n"
    then have "Suc k < Suc n" by simp
    then have "ctx_alive e (waits s + Suc k)" using Suc.prems(2) by blast
    then show "ctx_alive e (waits (polled m 1 s) + k)" by simp
  qed
  have w2: "\<forall>k<n. open_error e (opened (polled m 1 s) + k) = None"
  proof (intro allI impI)
    fix k assume "k < n"
    then have "Suc k < Suc n" by simp
    then have "open_error e (opened s + Suc k) = None" using Suc.prems(3) by blast
    then show "open_error e (opened (polled m 1 s) + k) = None" by simp
  qed
  have w3: "\<forall>k<n. (\<exists>rx. xfer_reply e (length (sent (polled m 1 s)) + 2 * k) = Inr rx)
           \<and> (\<exists>rbuf. xfer_reply e (length (sent (polled m 1 s)) + 2 * k + 1) = Inr rbuf
                 \<and> \<not> velocityReached rbuf)"
  proof (intro allI impI)
    fix k assume "k < n"
    then have "Suc k < Suc n" by simp
    then have "(\<exists>rx. xfer_reply e (length (sent s) + 2 * Suc k) = Inr rx)
           \<and> (\<exists>rbuf. xfer_reply e (length (sent s) + 2 * Suc k + 1) = Inr rbuf
                 \<and> \<not> velocityReached rbuf)"
      using Suc.prems(4) by blast
    moreover have "length (sent (polled m 1 s)) + 2 * k = length (sent s) + 2 * Suc k"
      by simp
    ultimately show "(\<exists>rx. xfer_reply e (length (sent (polled m 1 s)) + 2 * k) = Inr rx)
           \<and> (\<exists>rbuf. xfer_reply e (length (sent (polled m 1 s)) + 2 * k + 1) = Inr rbuf
                 \<and> \<not> velocityReached rbuf)"
      by (simp only:)
  qed
  have w4: "\<forall>k<n. \<not> stopRequested stopFunc (pollPoint m k (polled m 1 s))"
  proof (intro allI impI)
    fix k assume "k < n"
    then have "Suc k < Suc n" by simp
    then have "\<not> stopRequested stopFunc (pollPoint m (Suc k) s)" using Suc.prems(5) by blast
    then show "\<not> stopRequested stopFunc (pollPoint m k (polled m 1 s))"
      unfolding pollPoint_polled .
  qed
  have le: "Suc fails + n \<le> 500" using Suc.prems(1) by simp
  have "upToSpeed e m stopFunc (Suc fails) (polled m 1 s) =
          upToSpeed e m stopFunc (Suc fails + n) (polled m n (polled m 1 s))"
    using Suc.IH[OF le w1 w2 w3 w4] .
  then show ?case
    using step by (simp add: polled_polled)
qed

lemma upToSpeed_timeout:
  assumes "\<forall>k<501. ctx_alive e (waits s + k)"
    and "\<forall>k<501. open_error e (opened s + k) = None"
    and "\<forall>k<501. (\<exists>rx. xfer_reply e (length (sent s) + 2 * k) = Inr rx)
           \<and> (\<exists>rbuf. xfer_reply e (length (sent s) + 2 * k + 1) = Inr rbuf
                 \<and> \<not> velocityReached rbuf)"
    and "\<forall>k<501. \<not> stopRequested stopFunc (pollPoint m k s)"
  shows "upToSpeed e m stopFunc 0 s =
           (Return (Some (ErrorMsg ''over 500 failures trying to get up to speed while homing'')),
            polled m 501 s)"
proof -
  have skip: "upToSpeed e m stopFunc 0 s = upToSpeed e m stopFunc 500 (polled m 500 s)"
    using upToSpeed_skip[of 0 500 e s stopFunc m] assms by simp
  have l: "(500::nat) < 501" by simp
  have c: "ctx_alive e (waits (polled m 500 s))" using assms(1) by simp
  have o: "open_error e (opened (polled m 500 s)) = None" using assms(2) by simp
  have "(\<exists>rx. xfer_reply e (length (sent s) + 2 * 500) = Inr rx)
           \<and> (\<exists>rbuf. xfer_reply e (length (sent s) + 2 * 500 + 1) = Inr rbuf
                 \<and> \<not> velocityReached rbuf)"
    using assms(3) l by blast
  then obtain rx rbuf where rx0: "xfer_reply e (length (sent s) + 2 * 500) = Inr rx"
    and rb0: "xfer_reply e (length (sent s) + 2 * 500 + 1) = Inr rbuf"
    and rb: "\<not> velocityReached rbuf"
    by blast
  have rx: "xfer_reply e (length (sent (polled m 500 s))) = Inr rx"
    using rx0 by simp
  have rb1: "xfer_reply e (Suc (length (sent (polled m 500 s)))) = Inr rbuf"
    using rb0 by simp
  have "\<not> stopRequested stopFunc (pollPoint m 500 s)"
    using assms(4) l by blast
  then have ns: "\<not> stopRequested stopFunc
                    ((polled m 500 s)\<lparr>waits := waits (polled m 500 s) + 1\<rparr>)"
    by (simp add: pollPoint_def)
  have "upToSpeed e m stopFunc 500 (polled m 500 s) =
          (Return (Some (ErrorMsg ''over 500 failures trying to get up to speed while homing'')),
           polled m 1 (polled m 500 s))"
    using upToSpeed_poll[OF c ns o rx rb1, of m 500] rb by simp
  then show ?thesis
    using skip by (simp add: polled_polled)
qed

lemma goTillStop_body_timeout:
  assumes "\<forall>k<501. ctx_alive e (waits s + k)"
    and "\<forall>k<501. open_error e (opened s + k) = None"
    and "\<forall>k<501. (\<exists>rx. xfer_reply e (length (sent s) + 2 * k) = Inr rx)
           \<and> (\<exists>rbuf. xfer_reply e (length (sent s) + 2 * k + 1) = Inr rbuf
                 \<and> \<not> velocityReached rbuf)"
    and "\<forall>k<501. \<not> stopRequested stopFunc (pollPoint m k s)"
  shows "goTillStop_body e m stopFunc s =
           (Some (ErrorMsg ''over 500 failures trying to get up to speed while homing''),
            polled m 501 s)"
  by (simp add: goTillStop_body_def upToSpeed_timeout[OF assms])

lemma opMgr_New_fields [simp]:
  "regops (opMgr_New s) = regops s" "sent (opMgr_New s) = sent s"
  "opened (opMgr_New s) = opened s" "waits (opMgr_New s) = waits s"
  by (simp_all add: opMgr_New_def)

lemma goTillStop_timeout:
  assumes "fst (Jog e m rpm s) = None"
    and "\<forall>k<501. ctx_alive e (waits (snd (Jog e m rpm s)) + k)"
    and "\<forall>k<501. open_error e (opened (snd (Jog e m rpm s)) + k) = None"
    and "\<forall>k<501. (\<exists>rx. xfer_reply e (length (sent (snd (Jog e m rpm s))) + 2 * k) = Inr rx)
           \<and> (\<exists>rbuf. xfer_reply e (length (sent (snd (Jog e m rpm s))) + 2 * k + 1) = Inr rbuf
                 \<and> \<not> velocityReached rbuf)"
    and "\<forall>k<501. \<not> stopRequested stopFunc (pollPoint m k (opMgr_New (snd (Jog e m rpm s))))"
  shows "fst (goTillStop e m rpm stopFunc s) =
           Some (ErrorMsg ''over 500 failures trying to get up to speed while homing'')"
    and "regops (snd (goTillStop e m rpm stopFunc s)) =
           regops s @ jogOps e m rpm @ replicate 501 (RegRead rampStat) @ cleanupOps e m"
proof -
  let ?s1 = "opMgr_New (snd (Jog e m rpm s))"
  have b: "goTillStop_body e m stopFunc ?s1 =
             (Some (ErrorMsg ''over 500 failures trying to get up to speed while homing''),
              polled m 501 ?s1)"
    using assms(2-5) by (intro goTillStop_body_timeout) simp_all
  show "fst (goTillStop e m rpm stopFunc s) =
           Some (ErrorMsg ''over 500 failures trying to get up to speed while homing'')"
    by (simp add: goTillStop_jog_ok[OF assms(1)] b)
  show "regops (snd (goTillStop e m rpm stopFunc s)) =
           regops s @ jogOps e m rpm @ replicate 501 (RegRead rampStat) @ cleanupOps e m"
    by (simp add: goTillStop_jog_ok[OF assms(1)] b goTillStop_cleanup_regops Jog_regops)
qed

text \<open>
  C3 (as the code has it).  Once the initial jog has succeeded, every way out of \<^verbatim>\<open>goTillStop\<close>
  (success or failure) ends with the cleanup, exactly once: the register operations of the call
  are those of the jog, then reads of \<^verbatim>\<open>rampStat\<close> with at most the write of \<open>0x400\<close> to
  \<^verbatim>\<open>swMode\<close> among them, then the write of 0 to \<^verbatim>\<open>swMode\<close> followed by the jog at rpm 0
  (the two writes of \<^verbatim>\<open>doJog(ctx, 0)\<close>), and no operation in between writes 0 to \<^verbatim>\<open>swMode\<close> or
  writes \<^verbatim>\<open>rampMode\<close> or \<^verbatim>\<open>vMax\<close>.  If,
  besides, none of the first 501 polls after the jog observes the "target velocity reached" bit
  (the wait of each is not cancelled, no stop is requested at it, its handle opens, both its
  transfers succeed and the reply it decodes, the second one, does not carry the bit; what the
  discarded first reply carries does not matter), the result is the "over 500 failures" error
  and exactly 501 polls were made.  If the initial jog fails, its error is returned at once and
  no cleanup is made.
\<close>

theorem goTillStop_timeout_cleanup:
  "(fst (Jog e m rpm s) = None \<longrightarrow>
      (\<exists>ops. regops (snd (goTillStop e m rpm stopFunc s)) =
                regops s @ jogOps e m rpm @ ops @ cleanupOps e m
            \<and> set ops \<subseteq> {RegRead rampStat, RegWrite swMode 0x400}
            \<and> RegWrite swMode 0 \<notin> set ops
            \<and> list_all (\<lambda>op. \<not> writesTo {rampMode, vMax} op) ops))
   \<and> (fst (Jog e m rpm s) = None
        \<and> (\<forall>k<501. ctx_alive e (waits (snd (Jog e m rpm s)) + k))
        \<and> (\<forall>k<501. open_error e (opened (snd (Jog e m rpm s)) + k) = None)
        \<and> (\<forall>k<501. (\<exists>rx. xfer_reply e (length (sent (snd (Jog e m rpm s))) + 2 * k) = Inr rx)
               \<and> (\<exists>rbuf. xfer_reply e (length (sent (snd (Jog e m rpm s))) + 2 * k + 1) = Inr rbuf
                     \<and> \<not> velocityReached rbuf))
        \<and> (\<forall>k<501. \<not> stopRequested stopFunc (pollPoint m k (opMgr_New (snd (Jog e m rpm s))))) \<longrightarrow>
        fst (goTillStop e m rpm stopFunc s) =
          Some (ErrorMsg ''over 500 failures trying to get up to speed while homing'')
        \<and> regops (snd (goTillStop e m rpm stopFunc s)) =
            regops s @ jogOps e m rpm @ replicate 501 (RegRead rampStat) @ cleanupOps e m)
   \<and> (\<forall>err. fst (Jog e m rpm s) = Some err \<longrightarrow>
        goTillStop e m rpm stopFunc s = (Some err, snd (Jog e m rpm s))
        \<and> regops (snd (goTillStop e m rpm stopFunc s)) = regops s @ jogOps e m rpm)
   \<and> cleanupOps e m =
       [RegWrite swMode 0, RegWrite rampMode modeVelPos, RegWrite vMax (Motor_rpmToV (fround e) m 0)]"
proof -
  have c1: "fst (Jog e m rpm s) = None \<longrightarrow>
      (\<exists>ops. regops (snd (goTillStop e m rpm stopFunc s)) =
                regops s @ jogOps e m rpm @ ops @ cleanupOps e m
            \<and> set ops \<subseteq> {RegRead rampStat, RegWrite swMode 0x400}
            \<and> RegWrite swMode 0 \<notin> set ops
            \<and> list_all (\<lambda>op. \<not> writesTo {rampMode, vMax} op) ops)"
  proof
    assume j: "fst (Jog e m rpm s) = None"
    obtain ops where ops: "regops (snd (goTillStop e m rpm stopFunc s)) =
                regops s @ jogOps e m rpm @ ops @ cleanupOps e m"
      "set ops \<subseteq> {RegRead rampStat, RegWrite swMode 0x400}"
      using goTillStop_regops[OF j, of stopFunc] by blast
    show "\<exists>ops. regops (snd (goTillStop e m rpm stopFunc s)) =
                regops s @ jogOps e m rpm @ ops @ cleanupOps e m
            \<and> set ops \<subseteq> {RegRead rampStat, RegWrite swMode 0x400}
            \<and> RegWrite swMode 0 \<notin> set ops
            \<and> list_all (\<lambda>op. \<not> writesTo {rampMode, vMax} op) ops"
      using ops body_ops_no_cleanup[OF ops(2)] by blast
  qed
  have c2: "fst (Jog e m rpm s) = None
        \<and> (\<forall>k<501. ctx_alive e (waits (snd (Jog e m rpm s)) + k))
        \<and> (\<forall>k<501. open_error e (opened (snd (Jog e m rpm s)) + k) = None)
        \<and> (\<forall>k<501. (\<exists>rx. xfer_reply e (length (sent (snd (Jog e m rpm s))) + 2 * k) = Inr rx)
               \<and> (\<exists>rbuf. xfer_reply e (length (sent (snd (Jog e m rpm s))) + 2 * k + 1) = Inr rbuf
                     \<and> \<not> velocityReached rbuf))
        \<and> (\<forall>k<501. \<not> stopRequested stopFunc (pollPoint m k (opMgr_New (snd (Jog e m rpm s))))) \<longrightarrow>
        fst (goTillStop e m rpm stopFunc s) =
          Some (ErrorMsg ''over 500 failures trying to get up to speed while homing'')
        \<and> regops (snd (goTillStop e m rpm stopFunc s)) =
            regops s @ jogOps e m rpm @ replicate 501 (RegRead rampStat) @ cleanupOps e m"
  proof (intro impI, elim conjE)
    assume h: "fst (Jog e m rpm s) = None"
      "\<forall>k<501. ctx_alive e (waits (snd (Jog e m rpm s)) + k)"
      "\<forall>k<501. open_error e (opened (snd (Jog e m rpm s)) + k) = None"
      "\<forall>k<501. (\<exists>rx. xfer_reply e (length (sent (snd (Jog e m rpm s))) + 2 * k) = Inr rx)
               \<and> (\<exists>rbuf. xfer_reply e (length (sent (snd (Jog e m rpm s))) + 2 * k + 1) = Inr rbuf
                     \<and> \<not> velocityReached rbuf)"
      "\<forall>k<501. \<not> stopRequested stopFunc (pollPoint m k (opMgr_New (snd (Jog e m rpm s))))"
    show "fst (goTillStop e m rpm stopFunc s) =
          Some (ErrorMsg ''over 500 failures trying to get up to speed while homing'')
        \<and> regops (snd (goTillStop e m rpm stopFunc s)) =
            regops s @ jogOps e m rpm @ replicate 501 (RegRead rampStat) @ cleanupOps e m"
      using goTillStop_timeout[OF h] by (intro conjI)
  qed
  have c3: "\<forall>err. fst (Jog e m rpm s) = Some err \<longrightarrow>
        goTillStop e m rpm stopFunc s = (Some err, snd (Jog e m rpm s))
        \<and> regops (snd (goTillStop e m rpm stopFunc s)) = regops s @ jogOps e m rpm"
    by (simp add: goTillStop_jog_fails Jog_regops)
  have c4: "cleanupOps e m =
       [RegWrite swMode 0, RegWrite rampMode modeVelPos, RegWrite vMax (Motor_rpmToV (fround e) m 0)]"
    by (simp add: cleanupOps_def)
  show ?thesis
    using c1 c2 c3 c4 by (intro conjI)
qed

lemma testMotor_home_jog:
  "jogOps (testEnv bus) testMotor (- 125) = [RegWrite rampMode 2, RegWrite vMax 135573]"
  "cleanupOps (testEnv bus) testMotor = [RegWrite swMode 0, RegWrite rampMode 1, RegWrite vMax 0]"
proof -
  have v: "Motor_rpmToV exact testMotor 125 = 135573" "Motor_rpmToV exact testMotor 0 = 0"
    by (simp_all add: Motor_rpmToV_eq testMotor_def converter_defs)
  show "jogOps (testEnv bus) testMotor (- 125) = [RegWrite rampMode 2, RegWrite vMax 135573]"
    by (simp add: jogOps_def v modeVelNeg_def)
  show "cleanupOps (testEnv bus) testMotor = [RegWrite swMode 0, RegWrite rampMode 1, RegWrite vMax 0]"
    by (simp add: cleanupOps_def v modeVelPos_def)
qed

theorem goTillStop_timeout_cleanup_witness:
  "fst (Jog (testEnv staleBus) testMotor (- 125) idle) = None
   \<and> length (sent (snd (Jog (testEnv staleBus) testMotor (- 125) idle))) = 2
   \<and> (\<forall>k. ctx_alive (testEnv staleBus) k)
   \<and> (\<forall>k. open_error (testEnv staleBus) k = None)
   \<and> (\<forall>k. xfer_reply (testEnv staleBus) (2 + 2 * k) = Inr (Frame 0 0 0 1 0))
   \<and> (\<forall>k. xfer_reply (testEnv staleBus) (2 + 2 * k + 1) = Inr (Frame 0 0 0 0 0))
   \<and> velocityReached (Frame 0 0 0 1 0)
   \<and> \<not> velocityReached (Frame 0 0 0 0 0)
   \<and> (\<forall>s'. \<not> stopRequested None s')
   \<and> fst (goTillStop (testEnv staleBus) testMotor (- 125) None idle) =
       Some (ErrorMsg ''over 500 failures trying to get up to speed while homing'')
   \<and> regops (snd (goTillStop (testEnv staleBus) testMotor (- 125) None idle)) =
       [RegWrite rampMode 2, RegWrite vMax 135573] @ replicate 501 (RegRead rampStat)
         @ [RegWrite swMode 0, RegWrite rampMode 1, RegWrite vMax 0]
   \<and> fst (Jog (testEnv failingBus) testMotor (- 125) idle) =
       Some (MultiError [BusError 1, BusError 1])
   \<and> regops (snd (goTillStop (testEnv failingBus) testMotor (- 125) None idle)) =
       [RegWrite rampMode 2, RegWrite vMax 135573]"
proof -
  let ?e = "testEnv staleBus"
  have stale: "staleBus 0 = Inr (Frame 0 0 0 1 0)" "staleBus (Suc 0) = Inr (Frame 0 0 0 0 0)"
    by (simp_all add: staleBus_def)
  have j: "Jog ?e testMotor (- 125) idle =
             (None, (CancelRunning idle)\<lparr>regops := jogOps ?e testMotor (- 125),
                sent := [writeFrame testMotor rampMode modeVelNeg,
                         writeFrame testMotor vMax (Motor_rpmToV (fround ?e) testMotor \<bar>- 125\<bar>)],
                opened := 2, closed := 2\<rparr>)"
    using doJog_ok[of ?e "CancelRunning idle" "Frame 0 0 0 1 0" "Frame 0 0 0 0 0" testMotor "- 125"]
    by (simp add: Jog_def CancelRunning_def idle_def stale)
  have j0: "fst (Jog ?e testMotor (- 125) idle) = None"
    by (simp add: j)
  have j2: "length (sent (snd (Jog ?e testMotor (- 125) idle))) = 2"
    by (simp add: j)
  have h: "\<forall>k. ctx_alive ?e k" "\<forall>k. open_error ?e k = None"
    "\<forall>k. xfer_reply ?e (2 + 2 * k) = Inr (Frame 0 0 0 1 0)"
    "\<forall>k. xfer_reply ?e (2 + 2 * k + 1) = Inr (Frame 0 0 0 0 0)"
    by (simp_all add: staleBus_def)
  have v: "velocityReached (Frame 0 0 0 1 0)" "\<not> velocityReached (Frame 0 0 0 0 0)"
    by (simp_all add: velocityReached_def decodeValue_def)
  have ns: "\<forall>s'. \<not> stopRequested None s'"
    by (simp add: stopRequested_def)
  have w: "\<forall>k<501. ctx_alive ?e (waits (snd (Jog ?e testMotor (- 125) idle)) + k)"
    "\<forall>k<501. open_error ?e (opened (snd (Jog ?e testMotor (- 125) idle)) + k) = None"
    "\<forall>k<501. (\<exists>rx. xfer_reply ?e (length (sent (snd (Jog ?e testMotor (- 125) idle))) + 2 * k) = Inr rx)
        \<and> (\<exists>rbuf. xfer_reply ?e (length (sent (snd (Jog ?e testMotor (- 125) idle))) + 2 * k + 1) = Inr rbuf
              \<and> \<not> velocityReached rbuf)"
    "\<forall>k<501. \<not> stopRequested None
        (pollPoint testMotor k (opMgr_New (snd (Jog ?e testMotor (- 125) idle))))"
    unfolding j2 using h v ns by simp_all
  note t = goTillStop_timeout_cleanup[of ?e testMotor "- 125" idle None]
  have r1: "fst (goTillStop ?e testMotor (- 125) None idle) =
       Some (ErrorMsg ''over 500 failures trying to get up to speed while homing'')"
    using t j0 w by blast
  have "regops (snd (goTillStop ?e testMotor (- 125) None idle)) =
          regops idle @ jogOps ?e testMotor (- 125) @ replicate 501 (RegRead rampStat)
            @ cleanupOps ?e testMotor"
    using t j0 w by blast
  then have r2: "regops (snd (goTillStop ?e testMotor (- 125) None idle)) =
       [RegWrite rampMode 2, RegWrite vMax 135573] @ replicate 501 (RegRead rampStat)
         @ [RegWrite swMode 0, RegWrite rampMode 1, RegWrite vMax 0]"
    by (simp add: testMotor_home_jog idle_def)
  let ?f = "testEnv failingBus"
  have jf: "fst (Jog ?f testMotor (- 125) idle) = Some (MultiError [BusError 1, BusError 1])"
    using doJog_bus_fails[of ?f "CancelRunning idle" 1 1 testMotor "- 125"]
    by (simp add: Jog_def CancelRunning_def idle_def failingBus_def)
  note tf = goTillStop_timeout_cleanup[of ?f testMotor "- 125" idle None]
  have "regops (snd (goTillStop ?f testMotor (- 125) None idle)) =
          regops idle @ jogOps ?f testMotor (- 125)"
    using tf jf by blast
  then have r3: "regops (snd (goTillStop ?f testMotor (- 125) None idle)) =
       [RegWrite rampMode 2, RegWrite vMax 135573]"
    by (simp add: testMotor_home_jog idle_def)
  show ?thesis
    using j0 j2 h v ns r1 r2 jf r3 by (intro conjI)
qed

text \<open>
  The claim as stated fails in two ways.  On a bus whose replies show no status bit during the
  first 500 polls and show it on the 501st, the routine does not time out: it goes on to the
  stall-detection phase and here succeeds.  And when the initial jog fails, the routine returns
  that error with no cleanup: the two register operations of the jog are the only ones.
\<close>

theorem goTillStop_poll_budget_counterexample:
  "fst (goTillStop (testEnv lateBus) testMotor (- 125) None idle) = None
   \<and> regops (snd (goTillStop (testEnv lateBus) testMotor (- 125) None idle)) =
       [RegWrite rampMode 2, RegWrite vMax 135573] @ replicate 501 (RegRead rampStat)
         @ [RegWrite swMode 0x400, RegRead rampStat]
         @ [RegWrite swMode 0, RegWrite rampMode 1, RegWrite vMax 0]
   \<and> fst (goTillStop (testEnv failingBus) testMotor (- 125) None idle) =
       Some (MultiError [BusError 1, BusError 1])
   \<and> regops (snd (goTillStop (testEnv failingBus) testMotor (- 125) None idle)) =
       [RegWrite rampMode 2, RegWrite vMax 135573]"
proof -
  let ?e = "testEnv lateBus"
  define s1 where "s1 = opMgr_New (snd (Jog ?e testMotor (- 125) idle))"
  have late: "lateBus 0 = Inr (Frame 0 0 0 0 0)" "lateBus (Suc 0) = Inr (Frame 0 0 0 0 0)"
    "lateBus 1002 = Inr (Frame 0 0 0 0 0)" "lateBus 1003 = Inr (Frame 0 0 0 5 0)"
    "lateBus 1004 = Inr (Frame 0 0 0 5 0)" "lateBus 1005 = Inr (Frame 0 0 0 5 0)"
    "lateBus 1006 = Inr (Frame 0 0 0 5 0)"
    by (simp_all add: lateBus_def)
  have j: "Jog ?e testMotor (- 125) idle =
             (None, (CancelRunning idle)\<lparr>regops := jogOps ?e testMotor (- 125),
                sent := [writeFrame testMotor rampMode modeVelNeg,
                         writeFrame testMotor vMax (Motor_rpmToV (fround ?e) testMotor \<bar>- 125\<bar>)],
                opened := 2, closed := 2\<rparr>)"
    using doJog_ok[of ?e "CancelRunning idle" "Frame 0 0 0 0 0" "Frame 0 0 0 0 0" testMotor "- 125"]
    by (simp add: Jog_def CancelRunning_def idle_def late)
  have j0: "fst (Jog ?e testMotor (- 125) idle) = None"
    by (simp add: j)
  have f1: "regops s1 = [RegWrite rampMode 2, RegWrite vMax 135573]" "length (sent s1) = 2"
    "opened s1 = 2" "waits s1 = 0"
    unfolding s1_def j by (simp_all add: testMotor_home_jog CancelRunning_def idle_def)
  have ns: "\<forall>k<500. \<not> stopRequested None (pollPoint testMotor k s1)"
    by (simp add: stopRequested_def)
  have q: "\<forall>k<500. (\<exists>rx. xfer_reply ?e (length (sent s1) + 2 * k) = Inr rx)
             \<and> (\<exists>rbuf. xfer_reply ?e (length (sent s1) + 2 * k + 1) = Inr rbuf
                   \<and> \<not> velocityReached rbuf)"
    by (simp add: f1 lateBus_def status_frames)
  have skip: "upToSpeed ?e testMotor None 0 s1 = upToSpeed ?e testMotor None 500 (polled testMotor 500 s1)"
    using upToSpeed_skip[of 0 500 ?e s1 None testMotor] q ns by simp
  have last: "upToSpeed ?e testMotor None 500 (polled testMotor 500 s1) = (Break, polled testMotor 501 s1)"
    using upToSpeed_poll[of ?e "polled testMotor 500 s1" None "Frame 0 0 0 0 0" "Frame 0 0 0 5 0"
        testMotor 500]
    by (simp add: f1 late status_frames stopRequested_def polled_polled)
  define s2 where "s2 = snd (writeReg ?e testMotor swMode 0x400 (polled testMotor 501 s1))"
  have w: "writeReg ?e testMotor swMode 0x400 (polled testMotor 501 s1) = (None, s2)"
    using writeReg_opened[of ?e "polled testMotor 501 s1" testMotor swMode "0x400"]
    by (simp add: s2_def f1 late)
  have f2: "regops s2 = regops s1 @ replicate 501 (RegRead rampStat) @ [RegWrite swMode 0x400]"
    "length (sent s2) = 1005" "waits s2 = 501"
    using writeReg_opened[of ?e "polled testMotor 501 s1" testMotor swMode "0x400"]
    by (simp_all add: s2_def f1)
  have stop: "atEndstop ?e testMotor None 0 s2 = (Break, polled testMotor 1 s2)"
    using atEndstop_poll[of ?e s2 None "Frame 0 0 0 5 0" "Frame 0 0 0 5 0" testMotor 0]
    by (simp add: f2 late status_frames stopRequested_def)
  have body: "goTillStop_body ?e testMotor None s1 = (None, polled testMotor 1 s2)"
    by (simp add: goTillStop_body_def skip last w stop)
  have g: "goTillStop ?e testMotor (- 125) None idle =
             (None, snd (goTillStop_cleanup ?e testMotor (polled testMotor 1 s2)))"
    using body by (simp add: goTillStop_jog_ok[OF j0] s1_def)
  have r1: "fst (goTillStop ?e testMotor (- 125) None idle) = None"
    by (simp add: g)
  have r2: "regops (snd (goTillStop ?e testMotor (- 125) None idle)) =
       [RegWrite rampMode 2, RegWrite vMax 135573] @ replicate 501 (RegRead rampStat)
         @ [RegWrite swMode 0x400, RegRead rampStat]
         @ [RegWrite swMode 0, RegWrite rampMode 1, RegWrite vMax 0]"
    by (simp add: g goTillStop_cleanup_regops f2 f1 testMotor_home_jog)
  let ?f = "testEnv failingBus"
  have jf: "Jog ?f testMotor (- 125) idle =
             (Some (MultiError [BusError 1, BusError 1]),
              (CancelRunning idle)\<lparr>regops := jogOps ?f testMotor (- 125),
                sent := [writeFrame testMotor rampMode modeVelNeg,
                         writeFrame testMotor vMax (Motor_rpmToV (fround ?f) testMotor \<bar>- 125\<bar>)],
                opened := 2, closed := 2\<rparr>)"
    using doJog_bus_fails[of ?f "CancelRunning idle" 1 1 testMotor "- 125"]
    by (simp add: Jog_def CancelRunning_def idle_def failingBus_def)
  have gf: "goTillStop ?f testMotor (- 125) None idle = Jog ?f testMotor (- 125) idle"
    using goTillStop_jog_fails[of ?f testMotor "- 125" idle "MultiError [BusError 1, BusError 1]" None]
    by (simp add: jf)
  have r3: "fst (goTillStop ?f testMotor (- 125) None idle) =
       Some (MultiError [BusError 1, BusError 1])"
    unfolding gf jf by simp
  have r4: "regops (snd (goTillStop ?f testMotor (- 125) None idle)) =
       [RegWrite rampMode 2, RegWrite vMax 135573]"
    unfolding gf jf by (simp add: testMotor_home_jog)
  show ?thesis
    using r1 r2 r3 r4 by (intro conjI)
qed

end
